theory Spec2Isabelle
  imports Main "HOL-Library.Sublist"
begin

section \<open>The session manager of \<open>src/hooks/useAuth.ts\<close>\<close>

text \<open>
  The hook keeps six reactive fields (the \<open>AuthState\<close>), reads and writes one key of the
  browser's \<open>localStorage\<close>, and talks to the backend through awaited calls. The embedding
  passes one \<open>world\<close> record through every function: the six fields, the stored
  remember-me value, the \<open>mounted\<close> flag of the effect, and a trace of everything the code
  did (state writes, backend calls, timers, storage operations, console output), in
  program order. What the backend answers is an input of each function, one argument for
  each \<open>await\<close> of the source.
\<close>

subsection \<open>Values\<close>

text \<open>
  A raw error is whatever the backend returns in \<open>error\<close> or rejects with. The code reads
  \<open>message\<close>, \<open>code\<close> and \<open>status\<close> through optional chaining and asks
  \<open>instanceof Error\<close>; a field that is missing is \<open>None\<close>. A thrown value that is not an
  object (\<open>null\<close>, \<open>undefined\<close>) reads like an object without any of the three fields.
\<close>

record js_error =
  message :: "string option"
  code :: "string option"
  status :: "int option"
  is_Error :: bool

text \<open>\<open>new Error(m)\<close>\<close>

definition new_Error :: "string \<Rightarrow> js_error" where
  "new_Error m = \<lparr>message = Some m, code = None, status = None, is_Error = True\<rparr>"

datatype role = customer | staff

record User =
  user_id :: string
  email :: string
  full_name :: string
  role :: role
  current_points :: int
  total_visits :: int

datatype connection_status = Connected | Disconnected | Checking

record AuthState =
  user :: "User option"
  loading :: bool
  isResettingPassword :: bool
  resetPasswordError :: "string option"
  connectionStatus :: connection_status
  lastError :: "js_error option"

text \<open>The \<open>useState\<close> initial values.\<close>

definition initial_state :: AuthState where
  "initial_state = \<lparr>user = None, loading = True, isResettingPassword = False,
     resetPasswordError = None, connectionStatus = Checking, lastError = None\<rparr>"

subsection \<open>Strings\<close>

text \<open>\<open>String.prototype.includes\<close>: the argument occurs as a contiguous piece.\<close>

fun str_includes :: "string \<Rightarrow> string \<Rightarrow> bool" where
  "str_includes [] sub = (sub = [])"
| "str_includes (c # cs) sub = (prefix sub (c # cs) \<or> str_includes cs sub)"

text \<open>\<open>error?.message?.includes(s)\<close>: a missing message gives \<open>undefined\<close>, which is falsy.\<close>

definition msg_includes :: "js_error \<Rightarrow> string \<Rightarrow> bool" where
  "msg_includes e s = (case message e of None \<Rightarrow> False | Some m \<Rightarrow> str_includes m s)"

text \<open>
  \<open>String.prototype.trim\<close> on the code points a \<open>char\<close> can hold: tab, line feed,
  vertical tab, form feed, carriage return, space and no-break space.
\<close>

definition js_whitespace :: "char \<Rightarrow> bool" where
  "js_whitespace c = (of_char c \<in> {9, 10, 11, 12, 13, 32, 160 :: nat})"

definition trim :: "string \<Rightarrow> string" where
  "trim s = rev (dropWhile js_whitespace (rev (dropWhile js_whitespace s)))"

subsection \<open>The world and its trace\<close>

datatype field_write =
    SetUser "User option"
  | SetLoading bool
  | SetIsResettingPassword bool
  | SetResetPasswordError "string option"
  | SetConnectionStatus connection_status
  | SetLastError "js_error option"

datatype backend_call =
    GetSession
  | AuthSignUp string string role
  | SignInWithPassword string string
  | AuthSignOut
  | ResetPasswordForEmail string string
  | UpdateUser string
  | SelectUserById string
  | InsertUser User

datatype event =
    Write field_write
  | Call backend_call
  | Wait nat
  | StorageSet string
  | StorageRemove
  | ConsoleError string js_error
  | Teardown

record world =
  auth :: AuthState
  remember_me :: "string option"
  mounted :: bool
  trace :: "event list"

definition emit :: "event \<Rightarrow> world \<Rightarrow> world" where
  "emit e w = w\<lparr>trace := trace w @ [e]\<rparr>"

definition setUser :: "User option \<Rightarrow> world \<Rightarrow> world" where
  "setUser u w = emit (Write (SetUser u)) (w\<lparr>auth := (auth w)\<lparr>user := u\<rparr>\<rparr>)"

definition setLoading :: "bool \<Rightarrow> world \<Rightarrow> world" where
  "setLoading b w = emit (Write (SetLoading b)) (w\<lparr>auth := (auth w)\<lparr>loading := b\<rparr>\<rparr>)"

definition setIsResettingPassword :: "bool \<Rightarrow> world \<Rightarrow> world" where
  "setIsResettingPassword b w =
     emit (Write (SetIsResettingPassword b)) (w\<lparr>auth := (auth w)\<lparr>isResettingPassword := b\<rparr>\<rparr>)"

definition setResetPasswordError :: "string option \<Rightarrow> world \<Rightarrow> world" where
  "setResetPasswordError m w =
     emit (Write (SetResetPasswordError m)) (w\<lparr>auth := (auth w)\<lparr>resetPasswordError := m\<rparr>\<rparr>)"

definition setConnectionStatus :: "connection_status \<Rightarrow> world \<Rightarrow> world" where
  "setConnectionStatus c w =
     emit (Write (SetConnectionStatus c)) (w\<lparr>auth := (auth w)\<lparr>connectionStatus := c\<rparr>\<rparr>)"

definition setLastError :: "js_error option \<Rightarrow> world \<Rightarrow> world" where
  "setLastError e w = emit (Write (SetLastError e)) (w\<lparr>auth := (auth w)\<lparr>lastError := e\<rparr>\<rparr>)"

text \<open>\<open>localStorage\<close> under the key \<open>REMEMBER_ME_KEY\<close>.\<close>

definition storage_setItem :: "string \<Rightarrow> world \<Rightarrow> world" where
  "storage_setItem v w = emit (StorageSet v) (w\<lparr>remember_me := Some v\<rparr>)"

definition storage_removeItem :: "world \<Rightarrow> world" where
  "storage_removeItem w = emit StorageRemove (w\<lparr>remember_me := None\<rparr>)"

text \<open>
  An awaited call settles by resolving or by rejecting. While it is in flight the
  component may be torn down: the cleanup of the effect sets \<open>mounted = false\<close> and
  unsubscribes. The first component of an \<open>awaited\<close> says whether that happens during this
  call; the trace then records \<open>Teardown\<close> at that point.
\<close>

datatype 'a settled = Resolved 'a | Rejected js_error

type_synonym 'a awaited = "bool \<times> 'a settled"

definition suspend :: "bool \<Rightarrow> world \<Rightarrow> world" where
  "suspend td w = (if td \<and> mounted w then emit Teardown (w\<lparr>mounted := False\<rparr>) else w)"

text \<open>A session of the backend; \<open>session?.user\<close> is the identity, here its \<open>id\<close>.\<close>

datatype session = Session (session_user: "string option")

text \<open>\<open>{ data: { session }, error }\<close> of \<open>supabase.auth.getSession()\<close>\<close>

type_synonym session_response = "session option \<times> js_error option"

subsection \<open>testConnection\<close>

definition testConnection :: "session_response awaited \<Rightarrow> world \<Rightarrow> bool \<times> world" where
  "testConnection r w =
    (let w1 = setConnectionStatus Checking w;
         w2 = suspend (fst r) (emit (Call GetSession) w1)
     in case snd r of
          Rejected thrown \<Rightarrow> (False, setConnectionStatus Disconnected w2)
        | Resolved (sess, error) \<Rightarrow>
            (case error of
               Some e \<Rightarrow>
                 if msg_includes e ''fetch'' \<or> msg_includes e ''network''
                 then (False, setConnectionStatus Disconnected w2)
                 else (True, setConnectionStatus Connected w2)
             | None \<Rightarrow> (True, setConnectionStatus Connected w2)))"

subsection \<open>handleError\<close>

definition handleError :: "js_error \<Rightarrow> string \<Rightarrow> world \<Rightarrow> js_error \<times> world" where
  "handleError error operation w =
    (let w0 = emit (ConsoleError (''Auth Error ['' @ operation @ '']:'') error) w;
         (userMessage, w1) =
           (if msg_includes error ''fetch'' \<or> msg_includes error ''network'' then
              (''Network connection failed. Please check your internet connection and try again.'',
               setConnectionStatus Disconnected w0)
            else if msg_includes error ''Invalid login credentials''
                    \<or> code error = Some ''invalid_credentials'' then
              (''Invalid email or password. Please check your credentials and try again.'', w0)
            else if msg_includes error ''Email not confirmed''
                    \<or> code error = Some ''email_not_confirmed'' then
              (''Please check your email and click the confirmation link before signing in.'', w0)
            else if msg_includes error ''User already registered''
                    \<or> code error = Some ''user_already_exists'' then
              (''An account with this email already exists. Please sign in instead.'', w0)
            else if msg_includes error ''row-level security policy''
                    \<or> code error = Some ''42501'' then
              (''Account permissions issue. Please contact support if this persists.'', w0)
            else if status error \<in> set (map Some [500, 502, 503, 504]) then
              (''Our servers are temporarily unavailable. Please try again in a few minutes.'',
               setConnectionStatus Disconnected w0)
            else
              (case message error of
                 Some m \<Rightarrow> if m = [] then ''An unexpected error occurred. Please try again.'' else m
               | None \<Rightarrow> ''An unexpected error occurred. Please try again.'', w0));
         enhancedError = new_Error userMessage
     in (enhancedError, setLastError (Some enhancedError) w1))"

text \<open>\<open>throw handleError(error, operation)\<close>\<close>

definition raise_handled :: "js_error \<Rightarrow> string \<Rightarrow> world \<Rightarrow> (js_error + 'a) \<times> world" where
  "raise_handled error operation w =
    (let (enhancedError, w') = handleError error operation w in (Inl enhancedError, w'))"

subsection \<open>fetchUserProfile\<close>

text \<open>\<open>{ data, error }\<close> of the select on the \<open>users\<close> table.\<close>

type_synonym select_response = "User option \<times> js_error option"

text \<open>
  Both \<open>throw handleError(...)\<close> inside the \<open>try\<close> land in the function's own
  \<open>catch\<close>, where the thrown value is an \<open>Error\<close> and is thrown again as it is. A rejection
  of the awaited select is thrown again when it is an \<open>Error\<close> and classified otherwise.
\<close>

definition fetchUserProfile ::
  "string \<Rightarrow> select_response awaited \<Rightarrow> world \<Rightarrow> (js_error + User) \<times> world" where
  "fetchUserProfile userId r w =
    (let w1 = suspend (fst r) (emit (Call (SelectUserById userId)) w)
     in case snd r of
          Rejected thrown \<Rightarrow>
            if is_Error thrown then (Inl thrown, w1)
            else raise_handled thrown ''fetching user profile'' w1
        | Resolved (data, error) \<Rightarrow>
            (case error of
               Some e \<Rightarrow> raise_handled e ''fetching user profile'' w1
             | None \<Rightarrow>
                 (case data of
                    None \<Rightarrow> raise_handled (new_Error ''User profile data is empty'')
                              ''fetching user profile'' w1
                  | Some userData \<Rightarrow> (Inr userData, w1))))"

subsection \<open>The effect: initializeAuth and the onAuthStateChange handler\<close>

text \<open>\<open>if (mounted) { ... }\<close>\<close>

definition if_mounted :: "(world \<Rightarrow> world) \<Rightarrow> world \<Rightarrow> world" where
  "if_mounted f w = (if mounted w then f w else w)"

text \<open>
  The \<open>try\<close> block of \<open>initializeAuth\<close>: \<open>Inr\<close> when it returns or runs to its end,
  \<open>Inl\<close> when an awaited call rejects. Its arguments are the answers to the probe, to
  \<open>signOut\<close>, to the session lookup and to the profile select.
\<close>

definition initializeAuth_try ::
  "session_response awaited \<Rightarrow> js_error option awaited \<Rightarrow> session_response awaited \<Rightarrow>
   select_response awaited \<Rightarrow> world \<Rightarrow> (js_error + unit) \<times> world" where
  "initializeAuth_try probe so gs prof w =
    (let (isConnected, w1) = testConnection probe w
     in if \<not> isConnected then (Inr (), if_mounted (setLoading False) w1)
        else
          let rememberMe = (remember_me w1 = Some ''true'')
          in if \<not> rememberMe then
               (let w2 = suspend (fst so) (emit (Call AuthSignOut) w1)
                in case snd so of
                     Rejected thrown \<Rightarrow> (Inl thrown, w2)
                   | Resolved _ \<Rightarrow>
                       (Inr (), if_mounted (\<lambda>w. setLoading False (setUser None w)) w2))
             else
               (let w2 = suspend (fst gs) (emit (Call GetSession) w1)
                in case snd gs of
                     Rejected thrown \<Rightarrow> (Inl thrown, w2)
                   | Resolved (sess, error) \<Rightarrow>
                       (case error of
                          Some e \<Rightarrow>
                            (let (_, w3) = handleError e ''getting session'' w2;
                                 w4 = storage_removeItem w3
                             in (Inr (), if_mounted (setLoading False) w4))
                        | None \<Rightarrow>
                            (case (case sess of None \<Rightarrow> None | Some s \<Rightarrow> session_user s) of
                               Some uid \<Rightarrow>
                                 (let (res, w3) = fetchUserProfile uid prof w2
                                  in case res of
                                       Inr userData \<Rightarrow>
                                         (Inr (), if_mounted (setUser (Some userData)) w3)
                                     | Inl err \<Rightarrow>
                                         (Inr (), if_mounted (setUser None)
                                            (emit (ConsoleError ''Error fetching user profile:'' err) w3)))
                             | None \<Rightarrow>
                                 (Inr (), if_mounted (setUser None) (storage_removeItem w2))))))"

text \<open>The \<open>catch\<close> and the \<open>finally\<close> around it.\<close>

definition initializeAuth ::
  "session_response awaited \<Rightarrow> js_error option awaited \<Rightarrow> session_response awaited \<Rightarrow>
   select_response awaited \<Rightarrow> world \<Rightarrow> world" where
  "initializeAuth probe so gs prof w =
    (let (res, w1) = initializeAuth_try probe so gs prof w;
         w2 = (case res of
                 Inr _ \<Rightarrow> w1
               | Inl error \<Rightarrow>
                   (let (_, w3) = handleError error ''initializing auth'' w1
                    in if_mounted (setUser None) (storage_removeItem w3)))
     in if_mounted (setLoading False) w2)"

text \<open>
  The handler of \<open>onAuthStateChange\<close>. The event is the backend's string. \<open>td1000\<close> and
  \<open>td2000\<close> say whether the component is torn down during the two timers; \<open>first\<close> and
  \<open>retry\<close> answer the two profile selects. \<open>fetchUserProfile\<close> throws \<open>Error\<close> objects
  only and the state setters do not throw, so nothing reaches the outer \<open>catch\<close> of the
  handler.
\<close>

definition onAuthStateChange ::
  "string \<Rightarrow> session option \<Rightarrow> bool \<Rightarrow> select_response awaited \<Rightarrow> bool \<Rightarrow>
   select_response awaited \<Rightarrow> world \<Rightarrow> world" where
  "onAuthStateChange ev sess td1000 first td2000 retry w =
    (if \<not> mounted w then w
     else if ev = ''SIGNED_OUT'' then setLoading False (setUser None w)
     else if ev = ''PASSWORD_RECOVERY'' then setLoading False w
     else
       (case (case sess of None \<Rightarrow> None | Some s \<Rightarrow> session_user s) of
          Some uid \<Rightarrow>
            (let w1 = setLoading True w;
                 w2 = (if ev = ''SIGNED_UP'' then suspend td1000 (emit (Wait 1000) w1) else w1);
                 (res, w3) = fetchUserProfile uid first w2;
                 w4 = (case res of
                         Inr userData \<Rightarrow> setUser (Some userData) w3
                       | Inl error \<Rightarrow>
                           if msg_includes error ''User profile not found''
                              \<or> msg_includes error ''0 rows'' then
                             (let w5 = suspend td2000 (emit (Wait 2000) w3);
                                  (res2, w6) = fetchUserProfile uid retry w5
                              in case res2 of
                                   Inr userData \<Rightarrow> setUser (Some userData) w6
                                 | Inl retryError \<Rightarrow>
                                     setUser None
                                       (emit (ConsoleError ''Profile still not found after retry:''
                                                retryError) w6))
                           else setUser None w3)
             in setLoading False w4)
        | None \<Rightarrow> setLoading False (setUser None w)))"

subsection \<open>The public actions\<close>

text \<open>
  The \<open>catch\<close> block shared, up to the operation label, by \<open>signUp\<close>, \<open>signIn\<close>,
  \<open>signOut\<close> and \<open>updatePassword\<close>:
  \<open>setLoading(false); if (error instanceof Error) throw error; throw handleError(error, label)\<close>.
\<close>

definition catch_rethrow ::
  "string \<Rightarrow> (js_error + unit) \<times> world \<Rightarrow> (js_error + unit) \<times> world" where
  "catch_rethrow operation rw =
    (case fst rw of
       Inr u \<Rightarrow> rw
     | Inl error \<Rightarrow>
         (let w1 = setLoading False (snd rw)
          in if is_Error error then (Inl error, w1) else raise_handled error operation w1))"

text \<open>\<open>if (rememberMe) setItem(KEY, 'true') else removeItem(KEY)\<close>\<close>

definition store_rememberMe :: "bool \<Rightarrow> world \<Rightarrow> world" where
  "store_rememberMe rememberMe w =
    (if rememberMe then storage_setItem ''true'' w else storage_removeItem w)"

text \<open>
  \<open>signUp\<close>: \<open>su\<close> answers \<open>supabase.auth.signUp\<close> with the new identity's id (or none)
  and an error (or none), \<open>td500\<close> is the 500ms timer, \<open>ins\<close> answers the insert of the
  profile row. The defaults of the source are \<open>role = customer\<close> and
  \<open>rememberMe = False\<close>.
\<close>

definition signUp_try ::
  "string \<Rightarrow> string \<Rightarrow> string \<Rightarrow> role \<Rightarrow> bool \<Rightarrow> session_response awaited \<Rightarrow>
   (string option \<times> js_error option) awaited \<Rightarrow> bool \<Rightarrow> js_error option awaited \<Rightarrow>
   world \<Rightarrow> (js_error + unit) \<times> world" where
  "signUp_try em password fullName rl rememberMe probe su td500 ins w =
    (let w1 = setLastError None (setLoading True w);
         (isConnected, w2) = testConnection probe w1
     in if \<not> isConnected then
          raise_handled (new_Error ''Unable to connect to authentication service'')
            ''testing connection'' w2
        else
          (let w3 = suspend (fst su) (emit (Call (AuthSignUp (trim em) password rl)) w2)
           in case snd su of
                Rejected thrown \<Rightarrow> (Inl thrown, w3)
              | Resolved (data_user, error) \<Rightarrow>
                  (case error of
                     Some e \<Rightarrow> raise_handled e ''signing up'' w3
                   | None \<Rightarrow>
                       (case data_user of
                          None \<Rightarrow>
                            raise_handled
                              (new_Error ''User creation failed - no user data returned'')
                              ''signing up'' w3
                        | Some uid \<Rightarrow>
                            (let w4 = suspend td500 (emit (Wait 500) w3);
                                 row = \<lparr>user_id = uid, email = trim em,
                                        full_name = trim fullName, role = rl,
                                        current_points = 0, total_visits = 0\<rparr>;
                                 w5 = suspend (fst ins) (emit (Call (InsertUser row)) w4)
                             in case snd ins of
                                  Rejected thrown \<Rightarrow> (Inl thrown, w5)
                                | Resolved profileError \<Rightarrow>
                                    (case profileError of
                                       Some e \<Rightarrow> raise_handled e ''creating user profile'' w5
                                     | None \<Rightarrow>
                                         (Inr (), setLoading False
                                                    (store_rememberMe rememberMe w5))))))))"

definition signUp ::
  "string \<Rightarrow> string \<Rightarrow> string \<Rightarrow> role \<Rightarrow> bool \<Rightarrow> session_response awaited \<Rightarrow>
   (string option \<times> js_error option) awaited \<Rightarrow> bool \<Rightarrow> js_error option awaited \<Rightarrow>
   world \<Rightarrow> (js_error + unit) \<times> world" where
  "signUp em password fullName rl rememberMe probe su td500 ins w =
     catch_rethrow ''signing up'' (signUp_try em password fullName rl rememberMe probe su td500 ins w)"

definition signIn_try ::
  "string \<Rightarrow> string \<Rightarrow> bool \<Rightarrow> session_response awaited \<Rightarrow> js_error option awaited \<Rightarrow>
   world \<Rightarrow> (js_error + unit) \<times> world" where
  "signIn_try em password rememberMe probe si w =
    (let w1 = setLastError None (setLoading True w);
         (isConnected, w2) = testConnection probe w1
     in if \<not> isConnected then
          raise_handled (new_Error ''Unable to connect to authentication service'')
            ''testing connection'' w2
        else
          (let w3 = suspend (fst si) (emit (Call (SignInWithPassword (trim em) password)) w2)
           in case snd si of
                Rejected thrown \<Rightarrow> (Inl thrown, w3)
              | Resolved error \<Rightarrow>
                  (case error of
                     Some e \<Rightarrow> raise_handled e ''signing in'' w3
                   | None \<Rightarrow> (Inr (), setLoading False (store_rememberMe rememberMe w3)))))"

definition signIn ::
  "string \<Rightarrow> string \<Rightarrow> bool \<Rightarrow> session_response awaited \<Rightarrow> js_error option awaited \<Rightarrow>
   world \<Rightarrow> (js_error + unit) \<times> world" where
  "signIn em password rememberMe probe si w =
     catch_rethrow ''signing in'' (signIn_try em password rememberMe probe si w)"

definition signOut_try :: "js_error option awaited \<Rightarrow> world \<Rightarrow> (js_error + unit) \<times> world" where
  "signOut_try so w =
    (let w1 = setLastError None (setLoading True w);
         w2 = suspend (fst so) (emit (Call AuthSignOut) w1)
     in case snd so of
          Rejected thrown \<Rightarrow> (Inl thrown, w2)
        | Resolved error \<Rightarrow>
            (case error of
               Some e \<Rightarrow> raise_handled e ''signing out'' w2
             | None \<Rightarrow> (Inr (), setLoading False (setUser None (storage_removeItem w2)))))"

definition signOut :: "js_error option awaited \<Rightarrow> world \<Rightarrow> (js_error + unit) \<times> world" where
  "signOut so w = catch_rethrow ''signing out'' (signOut_try so w)"

text \<open>
  \<open>resetPassword\<close>: \<open>origin\<close> is \<open>window.location.origin\<close>. Its \<open>catch\<close> differs from the
  others: it resets \<open>isResettingPassword\<close>, classifies what is not an \<open>Error\<close>, records the
  message of the error in \<open>resetPasswordError\<close> and throws the error.
\<close>

definition resetPassword_try ::
  "string \<Rightarrow> string \<Rightarrow> session_response awaited \<Rightarrow> js_error option awaited \<Rightarrow>
   world \<Rightarrow> (js_error + unit) \<times> world" where
  "resetPassword_try em origin probe rp w =
    (let w1 = setLastError None (setResetPasswordError None (setIsResettingPassword True w));
         (isConnected, w2) = testConnection probe w1
     in if \<not> isConnected then
          raise_handled (new_Error ''Unable to connect to authentication service'')
            ''testing connection'' w2
        else
          (let w3 = suspend (fst rp)
                      (emit (Call (ResetPasswordForEmail (trim em) (origin @ ''/reset-password''))) w2)
           in case snd rp of
                Rejected thrown \<Rightarrow> (Inl thrown, w3)
              | Resolved error \<Rightarrow>
                  (case error of
                     Some e \<Rightarrow> raise_handled e ''requesting password reset'' w3
                   | None \<Rightarrow> (Inr (), setIsResettingPassword False w3))))"

definition resetPassword ::
  "string \<Rightarrow> string \<Rightarrow> session_response awaited \<Rightarrow> js_error option awaited \<Rightarrow>
   world \<Rightarrow> (js_error + unit) \<times> world" where
  "resetPassword em origin probe rp w =
    (let (res, w1) = resetPassword_try em origin probe rp w
     in case res of
          Inr u \<Rightarrow> (Inr u, w1)
        | Inl error \<Rightarrow>
            (let w2 = setIsResettingPassword False w1;
                 (enhancedError, w3) =
                   (if is_Error error then (error, w2)
                    else handleError error ''requesting password reset'' w2)
             in (Inl enhancedError, setResetPasswordError (message enhancedError) w3)))"

definition updatePassword_try ::
  "string \<Rightarrow> js_error option awaited \<Rightarrow> world \<Rightarrow> (js_error + unit) \<times> world" where
  "updatePassword_try password up w =
    (let w1 = setLastError None (setLoading True w);
         w2 = suspend (fst up) (emit (Call (UpdateUser password)) w1)
     in case snd up of
          Rejected thrown \<Rightarrow> (Inl thrown, w2)
        | Resolved error \<Rightarrow>
            (case error of
               Some e \<Rightarrow> raise_handled e ''updating password'' w2
             | None \<Rightarrow> (Inr (), setLoading False w2)))"

definition updatePassword ::
  "string \<Rightarrow> js_error option awaited \<Rightarrow> world \<Rightarrow> (js_error + unit) \<times> world" where
  "updatePassword password up w =
     catch_rethrow ''updating password'' (updatePassword_try password up w)"

section \<open>The classification the specification describes\<close>

text \<open>
  The specification names seven kinds and gives the rules in order, the first match
  winning. The definitions of this section follow its words; \<open>handleError\<close> above follows
  the code. The code has no kind: its result is an \<open>Error\<close> that carries the user-facing
  message only.
\<close>

datatype error_kind =
  NetworkError | InvalidCredentials | EmailNotConfirmed | UserAlreadyExists
  | PermissionDenied | ServerUnavailable | Unknown

definition classification_rules :: "((js_error \<Rightarrow> bool) \<times> error_kind) list" where
  "classification_rules =
    [(\<lambda>e. msg_includes e ''fetch'' \<or> msg_includes e ''network'', NetworkError),
     (\<lambda>e. msg_includes e ''Invalid login credentials'' \<or> code e = Some ''invalid_credentials'',
        InvalidCredentials),
     (\<lambda>e. msg_includes e ''Email not confirmed'' \<or> code e = Some ''email_not_confirmed'',
        EmailNotConfirmed),
     (\<lambda>e. msg_includes e ''User already registered'' \<or> code e = Some ''user_already_exists'',
        UserAlreadyExists),
     (\<lambda>e. msg_includes e ''row-level security policy'' \<or> code e = Some ''42501'',
        PermissionDenied),
     (\<lambda>e. status e \<in> {Some 500, Some 502, Some 503, Some 504}, ServerUnavailable)]"

text \<open>First match wins; no match is \<open>Unknown\<close>.\<close>

definition classify_kind :: "js_error \<Rightarrow> error_kind" where
  "classify_kind e =
    (case find (\<lambda>rule. fst rule e) classification_rules of
       Some rule \<Rightarrow> snd rule
     | None \<Rightarrow> Unknown)"

text \<open>
  The message of each kind. For \<open>Unknown\<close> the raw message passes through; a raw error
  without a message, or with the empty message, gets the generic text.
\<close>

fun kind_message :: "error_kind \<Rightarrow> js_error \<Rightarrow> string" where
  "kind_message NetworkError e =
     ''Network connection failed. Please check your internet connection and try again.''"
| "kind_message InvalidCredentials e =
     ''Invalid email or password. Please check your credentials and try again.''"
| "kind_message EmailNotConfirmed e =
     ''Please check your email and click the confirmation link before signing in.''"
| "kind_message UserAlreadyExists e =
     ''An account with this email already exists. Please sign in instead.''"
| "kind_message PermissionDenied e =
     ''Account permissions issue. Please contact support if this persists.''"
| "kind_message ServerUnavailable e =
     ''Our servers are temporarily unavailable. Please try again in a few minutes.''"
| "kind_message Unknown e =
     (case message e of
        None \<Rightarrow> ''An unexpected error occurred. Please try again.''
      | Some m \<Rightarrow> if m = [] then ''An unexpected error occurred. Please try again.'' else m)"

definition marks_disconnected :: "error_kind \<Rightarrow> bool" where
  "marks_disconnected k = (k = NetworkError \<or> k = ServerUnavailable)"

definition classified :: "js_error \<Rightarrow> js_error" where
  "classified e = new_Error (kind_message (classify_kind e) e)"

section \<open>Reading the trace\<close>

fun is_call :: "event \<Rightarrow> bool" where
  "is_call (Call c) = True"
| "is_call e = False"

fun is_storage_op :: "event \<Rightarrow> bool" where
  "is_storage_op (StorageSet v) = True"
| "is_storage_op StorageRemove = True"
| "is_storage_op e = False"

definition calls_in :: "event list \<Rightarrow> event list" where
  "calls_in t = filter is_call t"

definition storage_ops :: "event list \<Rightarrow> event list" where
  "storage_ops t = filter is_storage_op t"

text \<open>The writes that \<open>initializeAuth\<close> puts under \<open>if (mounted)\<close>, and the two fields
  of the reset-password flow.\<close>

fun is_guarded_write :: "event \<Rightarrow> bool" where
  "is_guarded_write (Write (SetUser u)) = True"
| "is_guarded_write (Write (SetLoading b)) = True"
| "is_guarded_write (Write (SetIsResettingPassword b)) = True"
| "is_guarded_write (Write (SetResetPasswordError m)) = True"
| "is_guarded_write e = False"

text \<open>What the trace holds after its first \<open>Teardown\<close>; nothing when there is none.\<close>

definition after_teardown :: "event list \<Rightarrow> event list" where
  "after_teardown t = drop 1 (dropWhile (\<lambda>e. e \<noteq> Teardown) t)"

text \<open>When \<open>testConnection\<close> answers false, as a condition on what the backend answered.\<close>

definition probe_fails :: "session_response awaited \<Rightarrow> bool" where
  "probe_fails r =
    (case snd r of
       Rejected thrown \<Rightarrow> True
     | Resolved (sess, error) \<Rightarrow>
         (case error of
            Some e \<Rightarrow> msg_includes e ''fetch'' \<or> msg_includes e ''network''
          | None \<Rightarrow> False))"

text \<open>The events each building block appends, kept as named lists.\<close>

definition teardown_events :: "bool \<Rightarrow> bool \<Rightarrow> event list" where
  "teardown_events td m = (if td \<and> m then [Teardown] else [])"

definition handleError_events :: "js_error \<Rightarrow> string \<Rightarrow> event list" where
  "handleError_events e operation =
     [ConsoleError (''Auth Error ['' @ operation @ '']:'') e]
     @ (if marks_disconnected (classify_kind e) then [Write (SetConnectionStatus Disconnected)]
        else [])
     @ [Write (SetLastError (Some (classified e)))]"

definition testConnection_events :: "session_response awaited \<Rightarrow> bool \<Rightarrow> event list" where
  "testConnection_events r m =
     [Write (SetConnectionStatus Checking), Call GetSession] @ teardown_events (fst r) m
     @ [Write (SetConnectionStatus (if probe_fails r then Disconnected else Connected))]"

text \<open>
  The invariant of a run with respect to teardown: while the component is mounted no
  \<open>Teardown\<close> is in the trace, and no guarded write follows a \<open>Teardown\<close>.
\<close>

definition teardown_respected :: "world \<Rightarrow> bool" where
  "teardown_respected w =
    ((mounted w \<longrightarrow> Teardown \<notin> set (trace w))
     \<and> list_all (\<lambda>e. \<not> is_guarded_write e) (after_teardown (trace w)))"

text \<open>Concrete inputs: the world at mount, a profile row, and a no-rows error of the
  profile store.\<close>

definition fresh_world :: world where
  "fresh_world = \<lparr>auth = initial_state, remember_me = None, mounted = True, trace = []\<rparr>"

definition jane :: User where
  "jane = \<lparr>user_id = ''u1'', email = ''a@b.com'', full_name = ''Jane'', role = customer,
           current_points = 0, total_visits = 0\<rparr>"

definition no_rows :: js_error where
  "no_rows = \<lparr>message = Some ''Results contain 0 rows'', code = Some ''PGRST116'',
              status = Some 406, is_Error = False\<rparr>"

text \<open>
  The state that a trace describes: each \<open>Write\<close> event, applied in order to a starting
  state. A world is \<open>logged\<close> from an earlier one when its trace extends the earlier
  trace and its state is the earlier state with the new events applied, so that the
  trace tells what the state was at every point in between.
\<close>

fun apply_write :: "field_write \<Rightarrow> AuthState \<Rightarrow> AuthState" where
  "apply_write (SetUser u) s = s\<lparr>user := u\<rparr>"
| "apply_write (SetLoading b) s = s\<lparr>loading := b\<rparr>"
| "apply_write (SetIsResettingPassword b) s = s\<lparr>isResettingPassword := b\<rparr>"
| "apply_write (SetResetPasswordError m) s = s\<lparr>resetPasswordError := m\<rparr>"
| "apply_write (SetConnectionStatus c) s = s\<lparr>connectionStatus := c\<rparr>"
| "apply_write (SetLastError e) s = s\<lparr>lastError := e\<rparr>"

fun apply_event :: "event \<Rightarrow> AuthState \<Rightarrow> AuthState" where
  "apply_event (Write fw) s = apply_write fw s"
| "apply_event e s = s"

definition replay :: "event list \<Rightarrow> AuthState \<Rightarrow> AuthState" where
  "replay t s = fold apply_event t s"

definition logged :: "world \<Rightarrow> world \<Rightarrow> bool" where
  "logged w w' = (\<exists>evs. trace w' = trace w @ evs \<and> auth w' = replay evs (auth w))"

text \<open>
  The \<open>lastError\<close> an action may leave behind: none, or the error it throws itself.
\<close>

definition own_error_only :: "(js_error + unit) \<times> world \<Rightarrow> bool" where
  "own_error_only rw =
    (lastError (auth (snd rw)) = None
     \<or> (\<exists>err. fst rw = Inl err \<and> lastError (auth (snd rw)) = Some err))"

section \<open>The building blocks, characterised\<close>

lemmas prim_defs = emit_def setUser_def setLoading_def setIsResettingPassword_def
  setResetPasswordError_def setConnectionStatus_def setLastError_def storage_setItem_def
  storage_removeItem_def

lemma suspend_simps [simp]:
  "auth (suspend td w) = auth w"
  "remember_me (suspend td w) = remember_me w"
  "mounted (suspend td w) = (mounted w \<and> \<not> td)"
  "trace (suspend td w) = trace w @ teardown_events td (mounted w)"
  by (auto simp add: suspend_def emit_def teardown_events_def)

lemma teardown_events_simps [simp]:
  "calls_in (teardown_events td m) = []"
  "storage_ops (teardown_events td m) = []"
  "teardown_events False m = []"
  "teardown_events td False = []"
  "teardown_events True True = [Teardown]"
  by (simp_all add: teardown_events_def calls_in_def storage_ops_def)

lemma calls_in_simps [simp]:
  "calls_in [] = []"
  "calls_in (xs @ ys) = calls_in xs @ calls_in ys"
  "calls_in (e # xs) = (if is_call e then e # calls_in xs else calls_in xs)"
  by (simp_all add: calls_in_def)

lemma storage_ops_simps [simp]:
  "storage_ops [] = []"
  "storage_ops (xs @ ys) = storage_ops xs @ storage_ops ys"
  "storage_ops (e # xs) = (if is_storage_op e then e # storage_ops xs else storage_ops xs)"
  by (simp_all add: storage_ops_def)

lemma handleError_eq:
  "handleError e operation w =
    (classified e,
     w\<lparr>auth := (auth w)\<lparr>connectionStatus :=
                   (if marks_disconnected (classify_kind e) then Disconnected
                    else connectionStatus (auth w)),
                 lastError := Some (classified e)\<rparr>,
       trace := trace w @ handleError_events e operation\<rparr>)"
  by (simp add: handleError_def classified_def classify_kind_def classification_rules_def
        marks_disconnected_def handleError_events_def prim_defs Let_def)

lemma handleError_simps [simp]:
  "fst (handleError e operation w) = classified e"
  "user (auth (snd (handleError e operation w))) = user (auth w)"
  "loading (auth (snd (handleError e operation w))) = loading (auth w)"
  "isResettingPassword (auth (snd (handleError e operation w))) = isResettingPassword (auth w)"
  "resetPasswordError (auth (snd (handleError e operation w))) = resetPasswordError (auth w)"
  "lastError (auth (snd (handleError e operation w))) = Some (classified e)"
  "connectionStatus (auth (snd (handleError e operation w))) =
     (if marks_disconnected (classify_kind e) then Disconnected else connectionStatus (auth w))"
  "remember_me (snd (handleError e operation w)) = remember_me w"
  "mounted (snd (handleError e operation w)) = mounted w"
  "trace (snd (handleError e operation w)) = trace w @ handleError_events e operation"
  by (simp_all add: handleError_eq)

lemma handleError_events_simps [simp]:
  "calls_in (handleError_events e operation) = []"
  "storage_ops (handleError_events e operation) = []"
  by (simp_all add: handleError_events_def)

lemma raise_handled_simps [simp]:
  "fst (raise_handled e operation w) = Inl (classified e)"
  "snd (raise_handled e operation w) = snd (handleError e operation w)"
  by (simp_all add: raise_handled_def handleError_eq)

lemma testConnection_eq:
  "testConnection r w =
    (\<not> probe_fails r,
     w\<lparr>auth := (auth w)\<lparr>connectionStatus :=
                   (if probe_fails r then Disconnected else Connected)\<rparr>,
       mounted := (mounted w \<and> \<not> fst r),
       trace := trace w @ testConnection_events r (mounted w)\<rparr>)"
  by (cases w) (auto simp add: testConnection_def probe_fails_def prim_defs Let_def
        suspend_def teardown_events_def testConnection_events_def
        split: settled.splits option.splits prod.splits)

lemma testConnection_simps [simp]:
  "fst (testConnection r w) = (\<not> probe_fails r)"
  "user (auth (snd (testConnection r w))) = user (auth w)"
  "loading (auth (snd (testConnection r w))) = loading (auth w)"
  "isResettingPassword (auth (snd (testConnection r w))) = isResettingPassword (auth w)"
  "resetPasswordError (auth (snd (testConnection r w))) = resetPasswordError (auth w)"
  "lastError (auth (snd (testConnection r w))) = lastError (auth w)"
  "connectionStatus (auth (snd (testConnection r w))) =
     (if probe_fails r then Disconnected else Connected)"
  "remember_me (snd (testConnection r w)) = remember_me w"
  "mounted (snd (testConnection r w)) = (mounted w \<and> \<not> fst r)"
  "trace (snd (testConnection r w)) = trace w @ testConnection_events r (mounted w)"
  by (simp_all add: testConnection_eq)

lemma testConnection_events_simps [simp]:
  "calls_in (testConnection_events r m) = [Call GetSession]"
  "storage_ops (testConnection_events r m) = []"
  by (simp_all add: testConnection_events_def)

section \<open>The error classifier\<close>

text \<open>
  C5. \<open>handleError\<close> is the classifier of the specification: the error it returns
  carries the message of the kind that the ordered rules select (first match wins:
  fetch/network, invalid credentials, unconfirmed email, duplicate registration,
  row-level security, status 500/502/503/504, otherwise the raw message, or the generic
  text when the raw message is missing or empty). It sets \<open>connectionStatus\<close> to
  \<open>Disconnected\<close> for the kinds \<open>NetworkError\<close> and \<open>ServerUnavailable\<close> and leaves it
  alone for every other kind, records the returned error in \<open>lastError\<close> as its last
  write, and changes nothing else.
\<close>

theorem handleError_classifies:
  "fst (handleError e operation w) = new_Error (kind_message (classify_kind e) e)
   \<and> auth (snd (handleError e operation w)) =
       (auth w)\<lparr>connectionStatus :=
                  (if classify_kind e = NetworkError \<or> classify_kind e = ServerUnavailable
                   then Disconnected else connectionStatus (auth w)),
                lastError := Some (fst (handleError e operation w))\<rparr>
   \<and> last (trace (snd (handleError e operation w))) =
       Write (SetLastError (Some (fst (handleError e operation w))))
   \<and> remember_me (snd (handleError e operation w)) = remember_me w
   \<and> mounted (snd (handleError e operation w)) = mounted w"
  by (simp add: handleError_eq handleError_events_def classified_def marks_disconnected_def)

text \<open>
  An error that matches two rules takes the earlier one: a message with \<open>fetch\<close> and the
  code \<open>invalid_credentials\<close> is a network error, and the status is then marked
  disconnected.
\<close>

theorem handleError_classifies_witness:
  "fst (handleError \<lparr>message = Some ''Failed to fetch'', code = Some ''invalid_credentials'',
                     status = Some 500, is_Error = True\<rparr> ''signing in''
          \<lparr>auth = initial_state, remember_me = None, mounted = True, trace = []\<rparr>) =
     new_Error ''Network connection failed. Please check your internet connection and try again.''
   \<and> connectionStatus (auth (snd (handleError
        \<lparr>message = Some ''Failed to fetch'', code = Some ''invalid_credentials'',
          status = Some 500, is_Error = True\<rparr> ''signing in''
        \<lparr>auth = initial_state, remember_me = None, mounted = True, trace = []\<rparr>))) = Disconnected"
  using handleError_classifies [of "\<lparr>message = Some ''Failed to fetch'',
      code = Some ''invalid_credentials'', status = Some 500, is_Error = True\<rparr>" "''signing in''"
      "\<lparr>auth = initial_state, remember_me = None, mounted = True, trace = []\<rparr>"]
  by (simp add: classify_kind_def classification_rules_def msg_includes_def)

section \<open>The connection probe\<close>

text \<open>
  C7. \<open>testConnection\<close> first writes \<open>Checking\<close> and then asks the backend for the
  session. When the call rejects, the status becomes \<open>Disconnected\<close> and the answer is
  false. When it resolves with an error whose message mentions \<open>fetch\<close> or \<open>network\<close>,
  the same. On every other response, with or without an error, the status becomes
  \<open>Connected\<close> and the answer is true. The write of the final status is the last event.
\<close>

theorem testConnection_probe:
  "prefix (trace w @ [Write (SetConnectionStatus Checking), Call GetSession])
          (trace (snd (testConnection (td, outcome) w)))
   \<and> last (trace (snd (testConnection (td, outcome) w))) =
       Write (SetConnectionStatus (connectionStatus (auth (snd (testConnection (td, outcome) w)))))
   \<and> (\<forall>thrown. outcome = Rejected thrown \<longrightarrow>
         \<not> fst (testConnection (td, outcome) w)
         \<and> connectionStatus (auth (snd (testConnection (td, outcome) w))) = Disconnected)
   \<and> (\<forall>sess e. outcome = Resolved (sess, Some e)
          \<and> (msg_includes e ''fetch'' \<or> msg_includes e ''network'') \<longrightarrow>
         \<not> fst (testConnection (td, outcome) w)
         \<and> connectionStatus (auth (snd (testConnection (td, outcome) w))) = Disconnected)
   \<and> (\<forall>sess e. outcome = Resolved (sess, Some e)
          \<and> \<not> (msg_includes e ''fetch'' \<or> msg_includes e ''network'') \<longrightarrow>
         fst (testConnection (td, outcome) w)
         \<and> connectionStatus (auth (snd (testConnection (td, outcome) w))) = Connected)
   \<and> (\<forall>sess. outcome = Resolved (sess, None) \<longrightarrow>
         fst (testConnection (td, outcome) w)
         \<and> connectionStatus (auth (snd (testConnection (td, outcome) w))) = Connected)"
  by (simp add: testConnection_events_def probe_fails_def)

theorem testConnection_probe_witness:
  "\<not> fst (testConnection (False, Rejected (new_Error ''boom''))
            \<lparr>auth = initial_state, remember_me = None, mounted = True, trace = []\<rparr>)
   \<and> \<not> fst (testConnection
              (False, Resolved (None, Some \<lparr>message = Some ''Failed to fetch'', code = None,
                                          status = None, is_Error = True\<rparr>))
              \<lparr>auth = initial_state, remember_me = None, mounted = True, trace = []\<rparr>)
   \<and> fst (testConnection
            (False, Resolved (None, Some \<lparr>message = Some ''Invalid Refresh Token'', code = None,
                                        status = Some 400, is_Error = True\<rparr>))
            \<lparr>auth = initial_state, remember_me = None, mounted = True, trace = []\<rparr>)
   \<and> fst (testConnection (False, Resolved (None, None))
            \<lparr>auth = initial_state, remember_me = None, mounted = True, trace = []\<rparr>)"
  using
    testConnection_probe [of "\<lparr>auth = initial_state, remember_me = None, mounted = True, trace = []\<rparr>"
      False "Rejected (new_Error ''boom'')"]
    testConnection_probe [of "\<lparr>auth = initial_state, remember_me = None, mounted = True, trace = []\<rparr>"
      False "Resolved (None, Some \<lparr>message = Some ''Failed to fetch'', code = None,
                                   status = None, is_Error = True\<rparr>)"]
    testConnection_probe [of "\<lparr>auth = initial_state, remember_me = None, mounted = True, trace = []\<rparr>"
      False "Resolved (None, Some \<lparr>message = Some ''Invalid Refresh Token'', code = None,
                                   status = Some 400, is_Error = True\<rparr>)"]
    testConnection_probe [of "\<lparr>auth = initial_state, remember_me = None, mounted = True, trace = []\<rparr>"
      False "Resolved (None, None)"]
  by (simp add: msg_includes_def)


section \<open>The public actions\<close>

lemma new_Error_simps [simp]:
  "message (new_Error m) = Some m"
  "code (new_Error m) = None"
  "status (new_Error m) = None"
  "is_Error (new_Error m)"
  "(new_Error m = new_Error m') = (m = m')"
  by (simp_all add: new_Error_def)

lemma unreachable_classified [simp]:
  "classified (new_Error ''Unable to connect to authentication service'') =
     new_Error ''Unable to connect to authentication service''"
  "classify_kind (new_Error ''Unable to connect to authentication service'') = Unknown"
  by (simp_all add: classified_def classify_kind_def classification_rules_def new_Error_def
        msg_includes_def)

lemma catch_rethrow_simps:
  "fst (catch_rethrow operation rw) =
     (case fst rw of Inr u \<Rightarrow> Inr u
      | Inl e \<Rightarrow> Inl (if is_Error e then e else classified e))"
  "loading (auth (snd (catch_rethrow operation rw))) =
     (case fst rw of Inr u \<Rightarrow> loading (auth (snd rw)) | Inl e \<Rightarrow> False)"
  "remember_me (snd (catch_rethrow operation rw)) = remember_me (snd rw)"
  "storage_ops (trace (snd (catch_rethrow operation rw))) = storage_ops (trace (snd rw))"
  "calls_in (trace (snd (catch_rethrow operation rw))) = calls_in (trace (snd rw))"
  "prefix t (trace (snd rw)) \<Longrightarrow> prefix t (trace (snd (catch_rethrow operation rw)))"
  by (cases rw; simp add: catch_rethrow_def prim_defs Let_def
        split: sum.splits)+

lemma catch_rethrow_unreachable:
  "fst rw = Inl (new_Error m) \<Longrightarrow>
   connectionStatus (auth (snd (catch_rethrow operation rw))) = connectionStatus (auth (snd rw))
   \<and> lastError (auth (snd (catch_rethrow operation rw))) = lastError (auth (snd rw))"
  by (cases rw) (simp add: catch_rethrow_def prim_defs Let_def new_Error_def)

lemmas action_defs = Let_def case_prod_beta store_rememberMe_def prim_defs

lemma signUp_try_loading:
  "fst (signUp_try em pw fn rl rm probe su td500 ins w) = Inr u \<Longrightarrow>
   loading (auth (snd (signUp_try em pw fn rl rm probe su td500 ins w))) = False"
  by (auto simp add: signUp_try_def action_defs split: settled.splits option.splits if_splits)

lemma signIn_try_loading:
  "fst (signIn_try em pw rm probe si w) = Inr u \<Longrightarrow>
   loading (auth (snd (signIn_try em pw rm probe si w))) = False"
  by (auto simp add: signIn_try_def action_defs split: settled.splits option.splits if_splits)

lemma signOut_try_loading:
  "fst (signOut_try so w) = Inr u \<Longrightarrow> loading (auth (snd (signOut_try so w))) = False"
  by (simp add: signOut_try_def action_defs split: settled.splits option.splits if_splits)

lemma updatePassword_try_loading:
  "fst (updatePassword_try pw up w) = Inr u \<Longrightarrow>
   loading (auth (snd (updatePassword_try pw up w))) = False"
  by (simp add: updatePassword_try_def action_defs split: settled.splits option.splits if_splits)

lemma signUp_loading: "loading (auth (snd (signUp em pw fn rl rm probe su td500 ins w))) = False"
  by (simp add: signUp_def catch_rethrow_simps signUp_try_loading split: sum.splits)

lemma signIn_loading: "loading (auth (snd (signIn em pw rm probe si w))) = False"
  by (simp add: signIn_def catch_rethrow_simps signIn_try_loading split: sum.splits)

lemma signOut_loading: "loading (auth (snd (signOut so w))) = False"
  by (simp add: signOut_def catch_rethrow_simps signOut_try_loading split: sum.splits)

lemma updatePassword_loading: "loading (auth (snd (updatePassword pw up w))) = False"
  by (simp add: updatePassword_def catch_rethrow_simps updatePassword_try_loading
        split: sum.splits)

lemma resetPassword_resetting:
  "isResettingPassword (auth (snd (resetPassword em origin probe rp w))) = False"
  by (simp add: resetPassword_def resetPassword_try_def action_defs
        split: settled.splits option.splits if_splits sum.splits)

text \<open>Entry writes.\<close>

lemma signUp_entry:
  "prefix (trace w @ [Write (SetLoading True), Write (SetLastError None)])
          (trace (snd (signUp em pw fn rl rm probe su td500 ins w)))"
  unfolding signUp_def
  by (rule catch_rethrow_simps(6))
     (simp add: signUp_try_def action_defs split: settled.splits option.splits)

lemma signIn_entry:
  "prefix (trace w @ [Write (SetLoading True), Write (SetLastError None)])
          (trace (snd (signIn em pw rm probe si w)))"
  unfolding signIn_def
  by (rule catch_rethrow_simps(6))
     (simp add: signIn_try_def action_defs split: settled.splits option.splits)

lemma signOut_entry:
  "prefix (trace w @ [Write (SetLoading True), Write (SetLastError None)])
          (trace (snd (signOut so w)))"
  unfolding signOut_def
  by (rule catch_rethrow_simps(6))
     (simp add: signOut_try_def action_defs split: settled.splits option.splits)

lemma updatePassword_entry:
  "prefix (trace w @ [Write (SetLoading True), Write (SetLastError None)])
          (trace (snd (updatePassword pw up w)))"
  unfolding updatePassword_def
  by (rule catch_rethrow_simps(6))
     (simp add: updatePassword_try_def action_defs split: settled.splits option.splits)

lemma resetPassword_entry:
  "prefix (trace w @ [Write (SetIsResettingPassword True), Write (SetResetPasswordError None),
                      Write (SetLastError None)])
          (trace (snd (resetPassword em origin probe rp w)))"
  by (simp add: resetPassword_def resetPassword_try_def action_defs
        split: settled.splits option.splits sum.splits)

text \<open>The stored flag on the failing paths.\<close>

lemma signUp_try_storage:
  "fst (signUp_try em pw fn rl rm probe su td500 ins w) = Inl err \<Longrightarrow>
   remember_me (snd (signUp_try em pw fn rl rm probe su td500 ins w)) = remember_me w
   \<and> storage_ops (trace (snd (signUp_try em pw fn rl rm probe su td500 ins w))) =
       storage_ops (trace w)"
  by (auto simp add: signUp_try_def action_defs split: settled.splits option.splits if_splits)

lemma signIn_try_storage:
  "fst (signIn_try em pw rm probe si w) = Inl err \<Longrightarrow>
   remember_me (snd (signIn_try em pw rm probe si w)) = remember_me w
   \<and> storage_ops (trace (snd (signIn_try em pw rm probe si w))) = storage_ops (trace w)"
  by (auto simp add: signIn_try_def action_defs split: settled.splits option.splits if_splits)

lemma signUp_try_success:
  "fst (signUp_try em pw fn rl rm probe su td500 ins w) = Inr u \<Longrightarrow>
   \<not> probe_fails probe
   \<and> (\<exists>uid. snd su = Resolved (Some uid, None)) \<and> snd ins = Resolved None
   \<and> storage_ops (trace (snd (signUp_try em pw fn rl rm probe su td500 ins w))) =
       storage_ops (trace w) @ [if rm then StorageSet ''true'' else StorageRemove]
   \<and> remember_me (snd (signUp_try em pw fn rl rm probe su td500 ins w)) =
       (if rm then Some ''true'' else None)
   \<and> (\<exists>pre. trace (snd (signUp_try em pw fn rl rm probe su td500 ins w)) =
         pre @ [if rm then StorageSet ''true'' else StorageRemove, Write (SetLoading False)])"
  by (auto simp add: signUp_try_def action_defs split: settled.splits option.splits if_splits)

lemma signIn_try_success:
  "fst (signIn_try em pw rm probe si w) = Inr u \<Longrightarrow>
   \<not> probe_fails probe \<and> snd si = Resolved None
   \<and> storage_ops (trace (snd (signIn_try em pw rm probe si w))) =
       storage_ops (trace w) @ [if rm then StorageSet ''true'' else StorageRemove]
   \<and> remember_me (snd (signIn_try em pw rm probe si w)) =
       (if rm then Some ''true'' else None)
   \<and> (\<exists>pre. trace (snd (signIn_try em pw rm probe si w)) =
         pre @ [if rm then StorageSet ''true'' else StorageRemove, Write (SetLoading False)])"
  by (auto simp add: signIn_try_def action_defs split: settled.splits option.splits if_splits)

text \<open>The probe gate.\<close>

lemma signUp_try_gate:
  "probe_fails probe \<Longrightarrow>
   fst (signUp_try em pw fn rl rm probe su td500 ins w) =
     Inl (new_Error ''Unable to connect to authentication service'')
   \<and> calls_in (trace (snd (signUp_try em pw fn rl rm probe su td500 ins w))) =
       calls_in (trace w) @ [Call GetSession]
   \<and> connectionStatus (auth (snd (signUp_try em pw fn rl rm probe su td500 ins w))) =
       Disconnected
   \<and> lastError (auth (snd (signUp_try em pw fn rl rm probe su td500 ins w))) =
       Some (new_Error ''Unable to connect to authentication service'')"
  by (simp add: signUp_try_def action_defs marks_disconnected_def)

lemma signIn_try_gate:
  "probe_fails probe \<Longrightarrow>
   fst (signIn_try em pw rm probe si w) =
     Inl (new_Error ''Unable to connect to authentication service'')
   \<and> calls_in (trace (snd (signIn_try em pw rm probe si w))) =
       calls_in (trace w) @ [Call GetSession]
   \<and> connectionStatus (auth (snd (signIn_try em pw rm probe si w))) = Disconnected
   \<and> lastError (auth (snd (signIn_try em pw rm probe si w))) =
       Some (new_Error ''Unable to connect to authentication service'')"
  by (simp add: signIn_try_def action_defs marks_disconnected_def)

lemma resetPassword_gate:
  "probe_fails probe \<Longrightarrow>
   fst (resetPassword em origin probe rp w) =
     Inl (new_Error ''Unable to connect to authentication service'')
   \<and> calls_in (trace (snd (resetPassword em origin probe rp w))) =
       calls_in (trace w) @ [Call GetSession]
   \<and> connectionStatus (auth (snd (resetPassword em origin probe rp w))) = Disconnected
   \<and> lastError (auth (snd (resetPassword em origin probe rp w))) =
       Some (new_Error ''Unable to connect to authentication service'')
   \<and> resetPasswordError (auth (snd (resetPassword em origin probe rp w))) =
       Some ''Unable to connect to authentication service''"
  by (simp add: resetPassword_def resetPassword_try_def action_defs marks_disconnected_def)

section \<open>The effect\<close>

lemma fetchUserProfile_simps [simp]:
  "user (auth (snd (fetchUserProfile uid r w))) = user (auth w)"
  "loading (auth (snd (fetchUserProfile uid r w))) = loading (auth w)"
  "isResettingPassword (auth (snd (fetchUserProfile uid r w))) = isResettingPassword (auth w)"
  "resetPasswordError (auth (snd (fetchUserProfile uid r w))) = resetPasswordError (auth w)"
  "remember_me (snd (fetchUserProfile uid r w)) = remember_me w"
  "mounted (snd (fetchUserProfile uid r w)) = (mounted w \<and> \<not> fst r)"
  by (simp_all add: fetchUserProfile_def Let_def emit_def
        split: settled.splits option.splits prod.splits)

lemma after_teardown_absent:
  "Teardown \<notin> set t \<Longrightarrow> after_teardown (t @ es) = after_teardown es"
  by (induction t) (auto simp add: after_teardown_def)

lemma after_teardown_present:
  assumes "Teardown \<in> set t"
  shows "after_teardown (t @ es) = after_teardown t @ es"
proof -
  from assms obtain x xs where split: "dropWhile (\<lambda>e. e \<noteq> Teardown) t = x # xs"
    by (cases "dropWhile (\<lambda>e. e \<noteq> Teardown) t") auto
  from assms have "dropWhile (\<lambda>e. e \<noteq> Teardown) (t @ es) = dropWhile (\<lambda>e. e \<noteq> Teardown) t @ es"
    by auto
  with split show ?thesis
    by (simp add: after_teardown_def)
qed

lemma after_teardown_snoc:
  "after_teardown (t @ [e]) = (if Teardown \<in> set t then after_teardown t @ [e] else [])"
  by (simp add: after_teardown_present after_teardown_absent) (simp add: after_teardown_def)

lemma respected_auth [simp]:
  "teardown_respected (w\<lparr>auth := a\<rparr>) = teardown_respected w"
  "teardown_respected (w\<lparr>remember_me := r\<rparr>) = teardown_respected w"
  by (simp_all add: teardown_respected_def)

lemma respected_suspend: "teardown_respected w \<Longrightarrow> teardown_respected (suspend td w)"
  by (simp add: teardown_respected_def suspend_def emit_def after_teardown_snoc)

lemma respected_unguarded:
  "teardown_respected w \<Longrightarrow> teardown_respected (setConnectionStatus c w)"
  "teardown_respected w \<Longrightarrow> teardown_respected (setLastError le w)"
  "teardown_respected w \<Longrightarrow> teardown_respected (storage_removeItem w)"
  "teardown_respected w \<Longrightarrow> teardown_respected (emit (Call bc) w)"
  "teardown_respected w \<Longrightarrow> teardown_respected (emit (ConsoleError l err) w)"
  by (simp_all add: teardown_respected_def setConnectionStatus_def setLastError_def
        storage_removeItem_def emit_def after_teardown_snoc)

lemma respected_if_mounted:
  "teardown_respected w \<Longrightarrow> teardown_respected (if_mounted (setUser u) w)"
  "teardown_respected w \<Longrightarrow> teardown_respected (if_mounted (setLoading b) w)"
  "teardown_respected w \<Longrightarrow>
   teardown_respected (if_mounted (\<lambda>w. setLoading b (setUser u w)) w)"
  by (simp_all add: teardown_respected_def if_mounted_def setUser_def setLoading_def
        emit_def after_teardown_snoc after_teardown_absent)
     (simp add: after_teardown_def)

lemma respected_handleError:
  "teardown_respected w \<Longrightarrow> teardown_respected (snd (handleError e operation w))"
  by (auto simp add: handleError_def Let_def
        intro!: respected_unguarded split: prod.splits if_splits)

lemma respected_testConnection:
  "teardown_respected w \<Longrightarrow> teardown_respected (snd (testConnection r w))"
  by (auto simp add: testConnection_def Let_def
        intro!: respected_unguarded respected_suspend split: settled.splits option.splits)

lemma respected_fetchUserProfile:
  "teardown_respected w \<Longrightarrow> teardown_respected (snd (fetchUserProfile uid r w))"
  by (auto simp add: fetchUserProfile_def Let_def
        intro!: respected_unguarded respected_suspend respected_handleError
        split: settled.splits option.splits)

lemmas respected_intros = respected_unguarded respected_suspend respected_if_mounted
  respected_handleError respected_testConnection respected_fetchUserProfile

lemma respected_initializeAuth_try:
  "teardown_respected w \<Longrightarrow>
   teardown_respected (snd (initializeAuth_try probe so gs prof w))"
  by (auto simp add: initializeAuth_try_def Let_def case_prod_beta
        intro!: respected_intros split: settled.splits option.splits sum.splits)

lemma respected_initializeAuth:
  "teardown_respected w \<Longrightarrow> teardown_respected (initializeAuth probe so gs prof w)"
  by (auto simp add: initializeAuth_def Let_def case_prod_beta
        intro!: respected_intros respected_initializeAuth_try split: sum.splits)

lemma initializeAuth_loading:
  "mounted (initializeAuth probe so gs prof w) \<Longrightarrow>
   loading (auth (initializeAuth probe so gs prof w)) = False"
  by (simp add: initializeAuth_def if_mounted_def Let_def case_prod_beta setLoading_def emit_def
        split: if_splits)

lemma initializeAuth_no_remember:
  "\<not> probe_fails probe \<Longrightarrow> remember_me w \<noteq> Some ''true'' \<Longrightarrow>
   calls_in (trace (initializeAuth probe so gs prof w)) =
     calls_in (trace w) @ [Call GetSession, Call AuthSignOut]
   \<and> (mounted (initializeAuth probe so gs prof w) \<longrightarrow>
        user (auth (initializeAuth probe so gs prof w)) = None
        \<and> loading (auth (initializeAuth probe so gs prof w)) = False)"
  by (auto simp add: initializeAuth_def initializeAuth_try_def if_mounted_def action_defs
        split: settled.splits)

text \<open>The definitions a concrete run unfolds.\<close>

lemmas run_defs = onAuthStateChange_def fetchUserProfile_def initializeAuth_def
  initializeAuth_try_def if_mounted_def raise_handled_def handleError_eq handleError_events_def
  classified_def classify_kind_def classification_rules_def marks_disconnected_def
  msg_includes_def testConnection_eq testConnection_events_def probe_fails_def
  teardown_events_def suspend_def fresh_world_def initial_state_def jane_def no_rows_def
  new_Error_def prim_defs Let_def after_teardown_def

lemma catch_rethrow_cases:
  "fst rw = Inr u \<Longrightarrow> catch_rethrow operation rw = rw"
  "fst (catch_rethrow operation rw) = Inl err \<Longrightarrow> \<exists>e. fst rw = Inl e"
  "fst (catch_rethrow operation rw) = Inr u \<Longrightarrow> fst rw = Inr u"
  by (cases rw; simp add: catch_rethrow_def Let_def split: sum.splits if_splits)+

lemma after_teardown_none: "Teardown \<notin> set t \<Longrightarrow> after_teardown t = []"
  using after_teardown_absent [of t "[]"] by (simp add: after_teardown_def)

section \<open>Teardown\<close>

text \<open>
  C1, as the code has it. Two things hold after teardown. An event that reaches the
  handler of the reactor once \<open>mounted\<close> is false does nothing at all: the world,
  trace included, is returned as it was. And in a bootstrap run that starts mounted,
  whatever the backend answers and at whichever awaited call the teardown falls, no
  write of \<open>user\<close>, \<open>loading\<close>, \<open>isResettingPassword\<close> or \<open>resetPasswordError\<close> follows
  the teardown in the trace. Writes of \<open>connectionStatus\<close> (by the probe) and of
  \<open>lastError\<close> (by the classifier) are not behind the flag.
\<close>

theorem teardown_guard:
  "(mounted w \<and> Teardown \<notin> set (trace w) \<longrightarrow>
      (\<forall>e \<in> set (after_teardown (trace (initializeAuth probe so gs prof w))).
         \<not> is_guarded_write e))
   \<and> (\<not> mounted w' \<longrightarrow> onAuthStateChange ev sess td1000 first td2000 retry w' = w')"
proof -
  have "\<forall>e \<in> set (after_teardown (trace (initializeAuth probe so gs prof w))).
          \<not> is_guarded_write e"
    if "mounted w" and "Teardown \<notin> set (trace w)"
  proof -
    from that have "teardown_respected w"
      by (simp add: teardown_respected_def after_teardown_none)
    then have "teardown_respected (initializeAuth probe so gs prof w)"
      by (rule respected_initializeAuth)
    then show ?thesis
      by (simp add: teardown_respected_def list_all_iff)
  qed
  moreover have "onAuthStateChange ev sess td1000 first td2000 retry w' = w'"
    if "\<not> mounted w'"
    using that by (simp add: onAuthStateChange_def)
  ultimately show ?thesis by blast
qed

text \<open>
  A bootstrap run torn down while its profile select is in flight, the select then
  failing: the classifier still writes \<open>lastError\<close>, and nothing else follows.
\<close>

theorem teardown_guard_witness:
  "mounted (fresh_world\<lparr>remember_me := Some ''true''\<rparr>)
   \<and> Teardown \<notin> set (trace (fresh_world\<lparr>remember_me := Some ''true''\<rparr>))
   \<and> after_teardown (trace (initializeAuth (False, Resolved (None, None)) (False, Resolved None)
        (False, Resolved (Some (Session (Some ''u1'')), None)) (True, Resolved (None, Some no_rows))
        (fresh_world\<lparr>remember_me := Some ''true''\<rparr>))) =
       [ConsoleError ''Auth Error [fetching user profile]:'' no_rows,
        Write (SetLastError (Some (new_Error ''Results contain 0 rows''))),
        ConsoleError ''Error fetching user profile:'' (new_Error ''Results contain 0 rows'')]
   \<and> onAuthStateChange ''SIGNED_IN'' (Some (Session (Some ''u1''))) False
        (False, Resolved (Some jane, None)) False (False, Resolved (Some jane, None))
        (fresh_world\<lparr>mounted := False\<rparr>) = fresh_world\<lparr>mounted := False\<rparr>"
  using teardown_guard [of "fresh_world\<lparr>remember_me := Some ''true''\<rparr>"
      "(False, Resolved (None, None))" "(False, Resolved None)"
      "(False, Resolved (Some (Session (Some ''u1'')), None))"
      "(True, Resolved (None, Some no_rows))" "fresh_world\<lparr>mounted := False\<rparr>"
      "''SIGNED_IN''" "Some (Session (Some ''u1''))" False "(False, Resolved (Some jane, None))"
      False "(False, Resolved (Some jane, None))"]
  by (simp add: run_defs)

text \<open>
  The claim as stated fails twice. A reactor run checks \<open>mounted\<close> on entry only: torn
  down while its profile select is in flight, it still writes \<open>user\<close> and \<open>loading\<close> when
  the select resolves. A bootstrap run torn down while the probe is in flight still
  writes \<open>connectionStatus\<close> when the probe resolves.
\<close>

theorem teardown_guard_counterexample:
  "after_teardown (trace (onAuthStateChange ''SIGNED_IN'' (Some (Session (Some ''u1''))) False
      (True, Resolved (Some jane, None)) False (False, Resolved (None, None)) fresh_world)) =
     [Write (SetUser (Some jane)), Write (SetLoading False)]
   \<and> user (auth fresh_world) = None
   \<and> user (auth (onAuthStateChange ''SIGNED_IN'' (Some (Session (Some ''u1''))) False
      (True, Resolved (Some jane, None)) False (False, Resolved (None, None)) fresh_world)) =
     Some jane
   \<and> after_teardown (trace (initializeAuth (True, Resolved (None, None)) (False, Resolved None)
      (False, Resolved (None, None)) (False, Resolved (None, None)) fresh_world)) =
     [Write (SetConnectionStatus Connected), Call AuthSignOut]
   \<and> connectionStatus (auth (initializeAuth (True, Resolved (None, None)) (False, Resolved None)
      (False, Resolved (None, None)) (False, Resolved (None, None)) fresh_world)) = Connected"
  by (simp add: run_defs)

section \<open>The event reactor\<close>

text \<open>
  For every event and every answer of the backend, the handler of a mounted component
  ends with \<open>loading = false\<close> and selects the profile at most twice; a first failure
  whose message matches neither retry pattern sets \<open>user\<close> to null after that one
  select.
\<close>

lemma fetchUserProfile_calls [simp]:
  "calls_in (trace (snd (fetchUserProfile uid r w))) =
     calls_in (trace w) @ [Call (SelectUserById uid)]"
  by (simp add: fetchUserProfile_def Let_def emit_def
        split: settled.splits option.splits prod.splits)

lemma fetchUserProfile_fst:
  "fst (fetchUserProfile uid r w) = fst (fetchUserProfile uid r w')"
  by (simp add: fetchUserProfile_def Let_def split: settled.splits option.splits prod.splits)

lemma reactor_settles:
  "mounted w \<Longrightarrow>
   loading (auth (onAuthStateChange ev sess td1000 first td2000 retry w)) = False"
  by (simp add: onAuthStateChange_def Let_def case_prod_beta prim_defs
        split: option.splits sum.splits)

lemma reactor_at_most_two_selects:
  "length (calls_in (trace (onAuthStateChange ev sess td1000 first td2000 retry w))) \<le>
     length (calls_in (trace w)) + 2"
  by (simp add: onAuthStateChange_def Let_def case_prod_beta prim_defs
        split: option.splits sum.splits)

lemma reactor_other_failure:
  assumes "mounted w" and "ev \<noteq> ''SIGNED_OUT''" and "ev \<noteq> ''PASSWORD_RECOVERY''"
    and "fst (fetchUserProfile uid first w) = Inl err"
    and "\<not> (msg_includes err ''User profile not found'' \<or> msg_includes err ''0 rows'')"
  shows "user (auth (onAuthStateChange ev (Some (Session (Some uid))) td1000 first td2000 retry w))
           = None
         \<and> calls_in (trace (onAuthStateChange ev (Some (Session (Some uid))) td1000 first td2000
              retry w)) = calls_in (trace w) @ [Call (SelectUserById uid)]"
proof -
  have "fst (fetchUserProfile uid first w') = Inl err" for w'
    using assms(4) fetchUserProfile_fst [of uid first w' w] by simp
  with assms show ?thesis
    by (simp add: onAuthStateChange_def Let_def case_prod_beta prim_defs)
qed

text \<open>
  C2, at the input where the code leaves the claim. The event is \<open>SIGNED_IN\<close>, not a
  sign-up; the first profile select answers with a no-rows error. The handler waits
  2000ms and selects again: the retry asks only whether the message mentions
  \<open>User profile not found\<close> or \<open>0 rows\<close>, never which event it is handling.
\<close>

theorem retry_without_sign_up:
  "trace (onAuthStateChange ''SIGNED_IN'' (Some (Session (Some ''u1''))) False
            (False, Resolved (None, Some no_rows)) False
            (False, Resolved (Some jane, None)) fresh_world) =
     [Write (SetLoading True), Call (SelectUserById ''u1''),
      ConsoleError ''Auth Error [fetching user profile]:'' no_rows,
      Write (SetLastError (Some (new_Error ''Results contain 0 rows''))),
      Wait 2000, Call (SelectUserById ''u1''),
      Write (SetUser (Some jane)), Write (SetLoading False)]"
  by (simp add: run_defs)

text \<open>
  C8. A \<open>PASSWORD_RECOVERY\<close> event delivered to the mounted component writes
  \<open>loading = false\<close> and nothing else: every other field of the state, the stored flag
  and the \<open>mounted\<close> flag are as before, and the only new event of the trace is that
  write, so no profile is fetched. The session the event carries plays no part.
\<close>

theorem password_recovery_frame:
  "mounted w \<Longrightarrow>
   onAuthStateChange ''PASSWORD_RECOVERY'' sess td1000 first td2000 retry w =
     w\<lparr>auth := (auth w)\<lparr>loading := False\<rparr>, trace := trace w @ [Write (SetLoading False)]\<rparr>"
  by (simp add: onAuthStateChange_def setLoading_def emit_def)

theorem password_recovery_frame_witness:
  "mounted (fresh_world\<lparr>auth := initial_state\<lparr>user := Some jane\<rparr>\<rparr>)
   \<and> onAuthStateChange ''PASSWORD_RECOVERY'' (Some (Session (Some ''u1''))) False
        (False, Resolved (None, None)) False (False, Resolved (None, None))
        (fresh_world\<lparr>auth := initial_state\<lparr>user := Some jane\<rparr>\<rparr>) =
       fresh_world\<lparr>auth := initial_state\<lparr>user := Some jane, loading := False\<rparr>,
                    trace := [Write (SetLoading False)]\<rparr>"
  using password_recovery_frame [of "fresh_world\<lparr>auth := initial_state\<lparr>user := Some jane\<rparr>\<rparr>"
      "Some (Session (Some ''u1''))" False "(False, Resolved (None, None))" False
      "(False, Resolved (None, None))"]
  by (simp add: fresh_world_def)

section \<open>The probe gate of the actions\<close>

text \<open>
  C3, as the code has it. When the probe answers false, \<open>signUp\<close>, \<open>signIn\<close> and
  \<open>resetPassword\<close> make no backend call besides the probe's own session lookup, throw
  an \<open>Error\<close> whose message is \<open>Unable to connect to authentication service\<close>, leave
  \<open>connectionStatus\<close> at \<open>Disconnected\<close> and record the thrown error in \<open>lastError\<close>
  (\<open>resetPassword\<close> also records its message in \<open>resetPasswordError\<close>). The classifier
  handles that error by its last rule: the message has neither \<open>fetch\<close> nor \<open>network\<close>
  in it, so the kind is \<open>Unknown\<close> and the message passes through.
\<close>

theorem unreachable_gate:
  "\<not> fst (testConnection probe w) \<Longrightarrow>
   fst (signUp em pw fn rl rm probe su td500 ins w) =
     Inl (new_Error ''Unable to connect to authentication service'')
   \<and> calls_in (trace (snd (signUp em pw fn rl rm probe su td500 ins w))) =
       calls_in (trace w) @ [Call GetSession]
   \<and> connectionStatus (auth (snd (signUp em pw fn rl rm probe su td500 ins w))) = Disconnected
   \<and> lastError (auth (snd (signUp em pw fn rl rm probe su td500 ins w))) =
       Some (new_Error ''Unable to connect to authentication service'')
   \<and> fst (signIn em pw rm probe si w) =
       Inl (new_Error ''Unable to connect to authentication service'')
   \<and> calls_in (trace (snd (signIn em pw rm probe si w))) = calls_in (trace w) @ [Call GetSession]
   \<and> connectionStatus (auth (snd (signIn em pw rm probe si w))) = Disconnected
   \<and> lastError (auth (snd (signIn em pw rm probe si w))) =
       Some (new_Error ''Unable to connect to authentication service'')
   \<and> fst (resetPassword em origin probe rp w) =
       Inl (new_Error ''Unable to connect to authentication service'')
   \<and> calls_in (trace (snd (resetPassword em origin probe rp w))) =
       calls_in (trace w) @ [Call GetSession]
   \<and> connectionStatus (auth (snd (resetPassword em origin probe rp w))) = Disconnected
   \<and> lastError (auth (snd (resetPassword em origin probe rp w))) =
       Some (new_Error ''Unable to connect to authentication service'')
   \<and> resetPasswordError (auth (snd (resetPassword em origin probe rp w))) =
       Some ''Unable to connect to authentication service''
   \<and> classify_kind (new_Error ''Unable to connect to authentication service'') = Unknown"
proof -
  assume "\<not> fst (testConnection probe w)"
  then have fails: "probe_fails probe" by simp
  note up = signUp_try_gate [OF fails, of em pw fn rl rm su td500 ins w]
  note inn = signIn_try_gate [OF fails, of em pw rm si w]
  note reset = resetPassword_gate [OF fails, of em origin rp w]
  from up have "fst (signUp em pw fn rl rm probe su td500 ins w) =
       Inl (new_Error ''Unable to connect to authentication service'')
     \<and> calls_in (trace (snd (signUp em pw fn rl rm probe su td500 ins w))) =
         calls_in (trace w) @ [Call GetSession]
     \<and> connectionStatus (auth (snd (signUp em pw fn rl rm probe su td500 ins w))) = Disconnected
     \<and> lastError (auth (snd (signUp em pw fn rl rm probe su td500 ins w))) =
         Some (new_Error ''Unable to connect to authentication service'')"
    by (simp add: signUp_def catch_rethrow_simps catch_rethrow_unreachable)
  moreover from inn have "fst (signIn em pw rm probe si w) =
       Inl (new_Error ''Unable to connect to authentication service'')
     \<and> calls_in (trace (snd (signIn em pw rm probe si w))) =
         calls_in (trace w) @ [Call GetSession]
     \<and> connectionStatus (auth (snd (signIn em pw rm probe si w))) = Disconnected
     \<and> lastError (auth (snd (signIn em pw rm probe si w))) =
         Some (new_Error ''Unable to connect to authentication service'')"
    by (simp add: signIn_def catch_rethrow_simps catch_rethrow_unreachable)
  ultimately show ?thesis
    using reset by simp
qed

theorem unreachable_gate_witness:
  "\<not> fst (testConnection (False, Rejected (new_Error ''Failed to fetch'')) fresh_world)
   \<and> fst (signUp ''a@b.com'' ''pw'' ''Jane'' customer False
            (False, Rejected (new_Error ''Failed to fetch''))
            (False, Resolved (Some ''u1'', None)) False (False, Resolved None) fresh_world) =
       Inl (new_Error ''Unable to connect to authentication service'')
   \<and> calls_in (trace (snd (signUp ''a@b.com'' ''pw'' ''Jane'' customer False
            (False, Rejected (new_Error ''Failed to fetch''))
            (False, Resolved (Some ''u1'', None)) False (False, Resolved None) fresh_world))) =
       [Call GetSession]"
  using unreachable_gate [of "(False, Rejected (new_Error ''Failed to fetch''))" fresh_world
      "''a@b.com''" "''pw''" "''Jane''" customer False "(False, Resolved (Some ''u1'', None))"
      False "(False, Resolved None)"]
  by (simp add: probe_fails_def fresh_world_def)

text \<open>
  The claim as stated fails at the scenario of the specification: the health probe
  rejects, and the error \<open>signUp\<close> throws is not the network error of the classifier.
\<close>

theorem unreachable_gate_counterexample:
  "fst (signUp ''a@b.com'' ''pw'' ''Jane'' customer False
          (False, Rejected (new_Error ''Failed to fetch''))
          (False, Resolved (Some ''u1'', None)) False (False, Resolved None) fresh_world) =
     Inl (new_Error ''Unable to connect to authentication service'')
   \<and> classify_kind (new_Error ''Unable to connect to authentication service'') \<noteq> NetworkError
   \<and> new_Error ''Unable to connect to authentication service'' \<noteq>
       new_Error (kind_message NetworkError (new_Error ''Unable to connect to authentication service''))"
  by (simp add: signUp_def signUp_try_def catch_rethrow_def action_defs probe_fails_def)


section \<open>Loading never stays set\<close>

text \<open>
  C4, as the code has it. When \<open>signUp\<close>, \<open>signIn\<close>, \<open>signOut\<close> or \<open>updatePassword\<close>
  settles, by returning or by throwing, whatever the backend answered, \<open>loading\<close> is
  false; when \<open>resetPassword\<close> settles, \<open>isResettingPassword\<close> is false. When bootstrap
  settles in a component that is still mounted, \<open>loading\<close> is false, on the early
  returns, on the path through the \<open>catch\<close> and on the normal end alike: its finalizer
  is \<open>if (mounted) setLoading(false)\<close>.
\<close>

theorem loading_reset_on_every_exit:
  "loading (auth (snd (signUp em pw fn rl rm probe su td500 ins w))) = False
   \<and> loading (auth (snd (signIn em pw rm probe si w))) = False
   \<and> loading (auth (snd (signOut so w))) = False
   \<and> loading (auth (snd (updatePassword pw up w))) = False
   \<and> isResettingPassword (auth (snd (resetPassword em origin probe rp w))) = False
   \<and> (mounted (initializeAuth probe so gs prof w) \<longrightarrow>
        loading (auth (initializeAuth probe so gs prof w)) = False)"
  by (simp add: signUp_loading signIn_loading signOut_loading updatePassword_loading
        resetPassword_resetting initializeAuth_loading)

text \<open>
  Bootstrap on its three kinds of exit, each from \<open>loading = true\<close>: the probe fails
  (early return), the session lookup rejects (through the \<open>catch\<close>), the profile loads.
\<close>

theorem loading_reset_on_every_exit_witness:
  "loading (auth fresh_world)
   \<and> mounted (initializeAuth (False, Rejected (new_Error ''Failed to fetch''))
        (False, Resolved None) (False, Resolved (None, None)) (False, Resolved (None, None))
        fresh_world)
   \<and> \<not> loading (auth (initializeAuth (False, Rejected (new_Error ''Failed to fetch''))
        (False, Resolved None) (False, Resolved (None, None)) (False, Resolved (None, None))
        fresh_world))
   \<and> mounted (initializeAuth (False, Resolved (None, None)) (False, Resolved None)
        (False, Rejected no_rows) (False, Resolved (None, None))
        (fresh_world\<lparr>remember_me := Some ''true''\<rparr>))
   \<and> \<not> loading (auth (initializeAuth (False, Resolved (None, None)) (False, Resolved None)
        (False, Rejected no_rows) (False, Resolved (None, None))
        (fresh_world\<lparr>remember_me := Some ''true''\<rparr>)))
   \<and> mounted (initializeAuth (False, Resolved (None, None)) (False, Resolved None)
        (False, Resolved (Some (Session (Some ''u1'')), None)) (False, Resolved (Some jane, None))
        (fresh_world\<lparr>remember_me := Some ''true''\<rparr>))
   \<and> \<not> loading (auth (initializeAuth (False, Resolved (None, None)) (False, Resolved None)
        (False, Resolved (Some (Session (Some ''u1'')), None)) (False, Resolved (Some jane, None))
        (fresh_world\<lparr>remember_me := Some ''true''\<rparr>)))"
  using
    loading_reset_on_every_exit [where probe = "(False, Rejected (new_Error ''Failed to fetch''))"
      and w = fresh_world and so = "(False, Resolved None)" and gs = "(False, Resolved (None, None))"
      and prof = "(False, Resolved (None, None))"]
    loading_reset_on_every_exit [where probe = "(False, Resolved (None, None))"
      and w = "fresh_world\<lparr>remember_me := Some ''true''\<rparr>" and so = "(False, Resolved None)"
      and gs = "(False, Rejected no_rows)" and prof = "(False, Resolved (None, None))"]
    loading_reset_on_every_exit [where probe = "(False, Resolved (None, None))"
      and w = "fresh_world\<lparr>remember_me := Some ''true''\<rparr>" and so = "(False, Resolved None)"
      and gs = "(False, Resolved (Some (Session (Some ''u1'')), None))"
      and prof = "(False, Resolved (Some jane, None))"]
  by (simp add: run_defs)

text \<open>
  The claim as stated fails for a bootstrap run that is torn down while the probe is in
  flight: the probe then rejects, the run takes its early return, and every write of
  \<open>loading\<close> is skipped, so the run settles with \<open>loading\<close> as it found it.
\<close>

theorem loading_reset_on_every_exit_counterexample:
  "loading (auth (initializeAuth (True, Rejected (new_Error ''Failed to fetch''))
      (False, Resolved None) (False, Resolved (None, None)) (False, Resolved (None, None))
      fresh_world))
   \<and> trace (initializeAuth (True, Rejected (new_Error ''Failed to fetch''))
      (False, Resolved None) (False, Resolved (None, None)) (False, Resolved (None, None))
      fresh_world) =
     [Write (SetConnectionStatus Checking), Call GetSession, Teardown,
      Write (SetConnectionStatus Disconnected)]"
  by (simp add: run_defs)

section \<open>Bootstrap without the remember-me flag\<close>

text \<open>
  C6, as the code has it. Let the probe succeed and the stored flag be absent or
  anything but \<open>true\<close>. Then bootstrap makes exactly two backend calls, the probe's
  session lookup and the sign-out, and so never looks the session up again, whatever
  session the backend holds; and when it settles in a component that is still mounted,
  \<open>user\<close> is null and \<open>loading\<close> is false. This covers the sign-out that rejects, which
  goes through the \<open>catch\<close>.
\<close>

theorem bootstrap_without_remember_me:
  "fst (testConnection probe w) \<Longrightarrow> remember_me w \<noteq> Some ''true'' \<Longrightarrow>
   calls_in (trace (initializeAuth probe so gs prof w)) =
     calls_in (trace w) @ [Call GetSession, Call AuthSignOut]
   \<and> (mounted (initializeAuth probe so gs prof w) \<longrightarrow>
        user (auth (initializeAuth probe so gs prof w)) = None
        \<and> loading (auth (initializeAuth probe so gs prof w)) = False)"
  using initializeAuth_no_remember [of probe w so gs prof] by simp

text \<open>
  A stored \<open>false\<close>, a user left in the state, and a backend that still holds a session
  with a profile.
\<close>

theorem bootstrap_without_remember_me_witness:
  "fst (testConnection (False, Resolved (Some (Session (Some ''u1'')), None))
          (fresh_world\<lparr>auth := initial_state\<lparr>user := Some jane\<rparr>, remember_me := Some ''false''\<rparr>))
   \<and> remember_me (fresh_world\<lparr>auth := initial_state\<lparr>user := Some jane\<rparr>,
                                remember_me := Some ''false''\<rparr>) \<noteq> Some ''true''
   \<and> calls_in (trace (initializeAuth (False, Resolved (Some (Session (Some ''u1'')), None))
        (False, Resolved None) (False, Resolved (Some (Session (Some ''u1'')), None))
        (False, Resolved (Some jane, None))
        (fresh_world\<lparr>auth := initial_state\<lparr>user := Some jane\<rparr>, remember_me := Some ''false''\<rparr>))) =
       [Call GetSession, Call AuthSignOut]
   \<and> mounted (initializeAuth (False, Resolved (Some (Session (Some ''u1'')), None))
        (False, Resolved None) (False, Resolved (Some (Session (Some ''u1'')), None))
        (False, Resolved (Some jane, None))
        (fresh_world\<lparr>auth := initial_state\<lparr>user := Some jane\<rparr>, remember_me := Some ''false''\<rparr>))
   \<and> user (auth (initializeAuth (False, Resolved (Some (Session (Some ''u1'')), None))
        (False, Resolved None) (False, Resolved (Some (Session (Some ''u1'')), None))
        (False, Resolved (Some jane, None))
        (fresh_world\<lparr>auth := initial_state\<lparr>user := Some jane\<rparr>, remember_me := Some ''false''\<rparr>))) =
       None
   \<and> \<not> loading (auth (initializeAuth (False, Resolved (Some (Session (Some ''u1'')), None))
        (False, Resolved None) (False, Resolved (Some (Session (Some ''u1'')), None))
        (False, Resolved (Some jane, None))
        (fresh_world\<lparr>auth := initial_state\<lparr>user := Some jane\<rparr>, remember_me := Some ''false''\<rparr>)))"
  using bootstrap_without_remember_me [of "(False, Resolved (Some (Session (Some ''u1'')), None))"
      "fresh_world\<lparr>auth := initial_state\<lparr>user := Some jane\<rparr>, remember_me := Some ''false''\<rparr>"
      "(False, Resolved None)" "(False, Resolved (Some (Session (Some ''u1'')), None))"
      "(False, Resolved (Some jane, None))"]
  by (simp add: run_defs)

text \<open>
  The claim as stated fails for a run that is torn down while the sign-out is in
  flight: the writes of \<open>user\<close> and \<open>loading\<close> after it are behind \<open>if (mounted)\<close>, and
  the run settles with \<open>loading\<close> still true.
\<close>

theorem bootstrap_without_remember_me_counterexample:
  "fst (testConnection (False, Resolved (None, None)) fresh_world)
   \<and> remember_me fresh_world = None
   \<and> loading (auth (initializeAuth (False, Resolved (None, None)) (True, Resolved None)
        (False, Resolved (None, None)) (False, Resolved (None, None)) fresh_world))
   \<and> trace (initializeAuth (False, Resolved (None, None)) (True, Resolved None)
        (False, Resolved (None, None)) (False, Resolved (None, None)) fresh_world) =
       [Write (SetConnectionStatus Checking), Call GetSession,
        Write (SetConnectionStatus Connected), Call AuthSignOut, Teardown]"
  by (simp add: run_defs)

section \<open>The stored flag\<close>

text \<open>
  C9. When \<open>signUp\<close> or \<open>signIn\<close> throws, the stored remember-me value is what it was
  and the run has performed no storage operation. When one of them returns, the probe
  had succeeded and every backend step had resolved without an error (for \<open>signUp\<close>:
  the sign-up with an identity, and the insert of the profile row); the run has
  performed exactly one storage operation, set to \<open>true\<close> or remove as \<open>rememberMe\<close>
  says, and it is the last event but one of the trace, followed only by the final write
  of \<open>loading\<close>, hence after every backend call.
\<close>

theorem remember_me_only_on_success:
  "(\<forall>err. fst (signUp em pw fn rl rm probe su td500 ins w) = Inl err \<longrightarrow>
      remember_me (snd (signUp em pw fn rl rm probe su td500 ins w)) = remember_me w
      \<and> storage_ops (trace (snd (signUp em pw fn rl rm probe su td500 ins w))) =
          storage_ops (trace w))
   \<and> (\<forall>err. fst (signIn em pw rm probe si w) = Inl err \<longrightarrow>
      remember_me (snd (signIn em pw rm probe si w)) = remember_me w
      \<and> storage_ops (trace (snd (signIn em pw rm probe si w))) = storage_ops (trace w))
   \<and> (fst (signUp em pw fn rl rm probe su td500 ins w) = Inr () \<longrightarrow>
      fst (testConnection probe w)
      \<and> (\<exists>uid. snd su = Resolved (Some uid, None)) \<and> snd ins = Resolved None
      \<and> storage_ops (trace (snd (signUp em pw fn rl rm probe su td500 ins w))) =
          storage_ops (trace w) @ [if rm then StorageSet ''true'' else StorageRemove]
      \<and> (\<exists>pre. trace (snd (signUp em pw fn rl rm probe su td500 ins w)) =
            pre @ [if rm then StorageSet ''true'' else StorageRemove, Write (SetLoading False)]))
   \<and> (fst (signIn em pw rm probe si w) = Inr () \<longrightarrow>
      fst (testConnection probe w) \<and> snd si = Resolved None
      \<and> storage_ops (trace (snd (signIn em pw rm probe si w))) =
          storage_ops (trace w) @ [if rm then StorageSet ''true'' else StorageRemove]
      \<and> (\<exists>pre. trace (snd (signIn em pw rm probe si w)) =
            pre @ [if rm then StorageSet ''true'' else StorageRemove, Write (SetLoading False)]))"
proof -
  have up_fail: "remember_me (snd (signUp em pw fn rl rm probe su td500 ins w)) = remember_me w
      \<and> storage_ops (trace (snd (signUp em pw fn rl rm probe su td500 ins w))) =
          storage_ops (trace w)"
    if "fst (signUp em pw fn rl rm probe su td500 ins w) = Inl err" for err
  proof -
    from that obtain e where "fst (signUp_try em pw fn rl rm probe su td500 ins w) = Inl e"
      unfolding signUp_def by (blast dest: catch_rethrow_cases(2))
    then show ?thesis
      by (simp add: signUp_def catch_rethrow_simps signUp_try_storage)
  qed
  have in_fail: "remember_me (snd (signIn em pw rm probe si w)) = remember_me w
      \<and> storage_ops (trace (snd (signIn em pw rm probe si w))) = storage_ops (trace w)"
    if "fst (signIn em pw rm probe si w) = Inl err" for err
  proof -
    from that obtain e where "fst (signIn_try em pw rm probe si w) = Inl e"
      unfolding signIn_def by (blast dest: catch_rethrow_cases(2))
    then show ?thesis
      by (simp add: signIn_def catch_rethrow_simps signIn_try_storage)
  qed
  have up_ok: "fst (testConnection probe w)
      \<and> (\<exists>uid. snd su = Resolved (Some uid, None)) \<and> snd ins = Resolved None
      \<and> storage_ops (trace (snd (signUp em pw fn rl rm probe su td500 ins w))) =
          storage_ops (trace w) @ [if rm then StorageSet ''true'' else StorageRemove]
      \<and> (\<exists>pre. trace (snd (signUp em pw fn rl rm probe su td500 ins w)) =
            pre @ [if rm then StorageSet ''true'' else StorageRemove, Write (SetLoading False)])"
    if "fst (signUp em pw fn rl rm probe su td500 ins w) = Inr ()"
  proof -
    from that have ok: "fst (signUp_try em pw fn rl rm probe su td500 ins w) = Inr ()"
      unfolding signUp_def by (rule catch_rethrow_cases(3))
    then have "signUp em pw fn rl rm probe su td500 ins w =
        signUp_try em pw fn rl rm probe su td500 ins w"
      unfolding signUp_def by (rule catch_rethrow_cases(1))
    with signUp_try_success [OF ok] show ?thesis by simp
  qed
  have in_ok: "fst (testConnection probe w) \<and> snd si = Resolved None
      \<and> storage_ops (trace (snd (signIn em pw rm probe si w))) =
          storage_ops (trace w) @ [if rm then StorageSet ''true'' else StorageRemove]
      \<and> (\<exists>pre. trace (snd (signIn em pw rm probe si w)) =
            pre @ [if rm then StorageSet ''true'' else StorageRemove, Write (SetLoading False)])"
    if "fst (signIn em pw rm probe si w) = Inr ()"
  proof -
    from that have ok: "fst (signIn_try em pw rm probe si w) = Inr ()"
      unfolding signIn_def by (rule catch_rethrow_cases(3))
    then have "signIn em pw rm probe si w = signIn_try em pw rm probe si w"
      unfolding signIn_def by (rule catch_rethrow_cases(1))
    with signIn_try_success [OF ok] show ?thesis by simp
  qed
  from up_fail in_fail up_ok in_ok show ?thesis by blast
qed

text \<open>
  A sign-up that asks to be forgotten while \<open>true\<close> is stored: when the backend reports
  a duplicate registration the stored value stays; when every step succeeds it is
  removed.
\<close>

theorem remember_me_only_on_success_witness:
  "fst (signUp ''a@b.com'' ''pw'' ''Jane'' customer False (False, Resolved (None, None))
          (False, Resolved (None, Some \<lparr>message = Some ''User already registered'', code = None,
                                         status = Some 422, is_Error = True\<rparr>))
          False (False, Resolved None) (fresh_world\<lparr>remember_me := Some ''true''\<rparr>)) =
     Inl (new_Error ''An account with this email already exists. Please sign in instead.'')
   \<and> remember_me (snd (signUp ''a@b.com'' ''pw'' ''Jane'' customer False
          (False, Resolved (None, None))
          (False, Resolved (None, Some \<lparr>message = Some ''User already registered'', code = None,
                                         status = Some 422, is_Error = True\<rparr>))
          False (False, Resolved None) (fresh_world\<lparr>remember_me := Some ''true''\<rparr>))) =
     Some ''true''
   \<and> fst (signIn ''a@b.com'' ''pw'' False (False, Resolved (None, None)) (False, Resolved None)
          (fresh_world\<lparr>remember_me := Some ''true''\<rparr>)) = Inr ()
   \<and> storage_ops (trace (snd (signIn ''a@b.com'' ''pw'' False (False, Resolved (None, None))
          (False, Resolved None) (fresh_world\<lparr>remember_me := Some ''true''\<rparr>)))) =
     [StorageRemove]"
  using remember_me_only_on_success [of "''a@b.com''" "''pw''" "''Jane''" customer False
      "(False, Resolved (None, None))"
      "(False, Resolved (None, Some \<lparr>message = Some ''User already registered'', code = None,
                                      status = Some 422, is_Error = True\<rparr>))"
      False "(False, Resolved None)" "fresh_world\<lparr>remember_me := Some ''true''\<rparr>"
      "(False, Resolved None)"]
  by (simp add: signUp_def signUp_try_def signIn_def signIn_try_def catch_rethrow_def
        action_defs probe_fails_def fresh_world_def classified_def classify_kind_def
        classification_rules_def msg_includes_def marks_disconnected_def)

section \<open>Every action clears the last error first\<close>

text \<open>The trace is a faithful log of the state.\<close>

lemma replay_simps [simp]:
  "replay [] s = s"
  "replay (e # t) s = replay t (apply_event e s)"
  "replay (t @ t') s = replay t' (replay t s)"
  by (simp_all add: replay_def)

lemma logged_refl: "logged w w"
  by (simp add: logged_def)

lemma logged_drop:
  "logged w w' \<Longrightarrow> auth w' = replay (drop (length (trace w)) (trace w')) (auth w)"
  by (auto simp add: logged_def)

lemma logged_step:
  "logged w0 w \<Longrightarrow> trace w' = trace w @ evs \<Longrightarrow> auth w' = replay evs (auth w) \<Longrightarrow>
   logged w0 w'"
  by (auto simp add: logged_def)

lemma logged_prims:
  "logged w0 w \<Longrightarrow> logged w0 (setUser u w)"
  "logged w0 w \<Longrightarrow> logged w0 (setLoading b w)"
  "logged w0 w \<Longrightarrow> logged w0 (setIsResettingPassword b w)"
  "logged w0 w \<Longrightarrow> logged w0 (setResetPasswordError m w)"
  "logged w0 w \<Longrightarrow> logged w0 (setConnectionStatus c w)"
  "logged w0 w \<Longrightarrow> logged w0 (setLastError le w)"
  "logged w0 w \<Longrightarrow> logged w0 (storage_setItem v w)"
  "logged w0 w \<Longrightarrow> logged w0 (storage_removeItem w)"
  "logged w0 w \<Longrightarrow> logged w0 (store_rememberMe rm w)"
  "logged w0 w \<Longrightarrow> logged w0 (emit (Call bc) w)"
  "logged w0 w \<Longrightarrow> logged w0 (emit (Wait n) w)"
  "logged w0 w \<Longrightarrow> logged w0 (suspend td w)"
  by (erule logged_step [where evs = "[Write (SetUser u)]"], simp_all add: prim_defs,
      erule logged_step [where evs = "[Write (SetLoading b)]"], simp_all add: prim_defs,
      erule logged_step [where evs = "[Write (SetIsResettingPassword b)]"],
        simp_all add: prim_defs,
      erule logged_step [where evs = "[Write (SetResetPasswordError m)]"],
        simp_all add: prim_defs,
      erule logged_step [where evs = "[Write (SetConnectionStatus c)]"],
        simp_all add: prim_defs,
      erule logged_step [where evs = "[Write (SetLastError le)]"], simp_all add: prim_defs,
      erule logged_step [where evs = "[StorageSet v]"], simp_all add: prim_defs,
      erule logged_step [where evs = "[StorageRemove]"], simp_all add: prim_defs,
      erule logged_step [where evs = "[if rm then StorageSet ''true'' else StorageRemove]"],
        simp_all add: prim_defs store_rememberMe_def,
      erule logged_step [where evs = "[Call bc]"], simp_all add: prim_defs,
      erule logged_step [where evs = "[Wait n]"], simp_all add: prim_defs,
      erule logged_step [where evs = "teardown_events td (mounted w)"],
        simp_all add: teardown_events_def)

lemma logged_handleError:
  "logged w0 w \<Longrightarrow> logged w0 (snd (handleError e operation w))"
  by (erule logged_step [where evs = "handleError_events e operation"])
     (simp_all add: handleError_eq handleError_events_def)

lemma logged_testConnection:
  "logged w0 w \<Longrightarrow> logged w0 (snd (testConnection r w))"
  by (erule logged_step [where evs = "testConnection_events r (mounted w)"])
     (simp_all add: testConnection_eq testConnection_events_def teardown_events_def)

lemma logged_catch_rethrow:
  "logged w0 (snd rw) \<Longrightarrow> logged w0 (snd (catch_rethrow operation rw))"
  by (cases rw)
     (auto simp add: catch_rethrow_def Let_def
        intro!: logged_prims logged_handleError split: sum.splits)

lemmas logged_intros = logged_prims logged_handleError logged_testConnection logged_refl

lemma signUp_logged: "logged w (snd (signUp em pw fn rl rm probe su td500 ins w))"
  unfolding signUp_def
  by (rule logged_catch_rethrow)
     (auto simp add: signUp_try_def Let_def case_prod_beta
        intro!: logged_intros split: settled.splits option.splits)

lemma signIn_logged: "logged w (snd (signIn em pw rm probe si w))"
  unfolding signIn_def
  by (rule logged_catch_rethrow)
     (auto simp add: signIn_try_def Let_def case_prod_beta
        intro!: logged_intros split: settled.splits option.splits)

lemma signOut_logged: "logged w (snd (signOut so w))"
  unfolding signOut_def
  by (rule logged_catch_rethrow)
     (auto simp add: signOut_try_def Let_def case_prod_beta
        intro!: logged_intros split: settled.splits option.splits)

lemma updatePassword_logged: "logged w (snd (updatePassword pw up w))"
  unfolding updatePassword_def
  by (rule logged_catch_rethrow)
     (auto simp add: updatePassword_try_def Let_def case_prod_beta
        intro!: logged_intros split: settled.splits option.splits)

lemma resetPassword_logged: "logged w (snd (resetPassword em origin probe rp w))"
  by (auto simp add: resetPassword_def resetPassword_try_def Let_def case_prod_beta
        intro!: logged_intros split: settled.splits option.splits sum.splits)

text \<open>The entry writes overwrite what was there.\<close>

lemma entry_forgets:
  "setLastError None (setLoading True (w\<lparr>auth := (auth w)\<lparr>lastError := stale\<rparr>\<rparr>)) =
     setLastError None (setLoading True w)"
  "setLastError None (setResetPasswordError None (setIsResettingPassword True
       (w\<lparr>auth := (auth w)\<lparr>lastError := stale, resetPasswordError := stale'\<rparr>\<rparr>))) =
     setLastError None (setResetPasswordError None (setIsResettingPassword True w))"
  by (simp_all add: prim_defs)

lemma signUp_forgets:
  "signUp em pw fn rl rm probe su td500 ins (w\<lparr>auth := (auth w)\<lparr>lastError := stale\<rparr>\<rparr>) =
     signUp em pw fn rl rm probe su td500 ins w"
  by (simp only: signUp_def signUp_try_def entry_forgets)

lemma signIn_forgets:
  "signIn em pw rm probe si (w\<lparr>auth := (auth w)\<lparr>lastError := stale\<rparr>\<rparr>) =
     signIn em pw rm probe si w"
  by (simp only: signIn_def signIn_try_def entry_forgets)

lemma signOut_forgets:
  "signOut so (w\<lparr>auth := (auth w)\<lparr>lastError := stale\<rparr>\<rparr>) = signOut so w"
  by (simp only: signOut_def signOut_try_def entry_forgets)

lemma updatePassword_forgets:
  "updatePassword pw up (w\<lparr>auth := (auth w)\<lparr>lastError := stale\<rparr>\<rparr>) = updatePassword pw up w"
  by (simp only: updatePassword_def updatePassword_try_def entry_forgets)

lemma resetPassword_forgets:
  "resetPassword em origin probe rp
     (w\<lparr>auth := (auth w)\<lparr>lastError := stale, resetPasswordError := stale'\<rparr>\<rparr>) =
     resetPassword em origin probe rp w"
  by (simp only: resetPassword_def resetPassword_try_def entry_forgets)

text \<open>What is left in \<open>lastError\<close> when an action settles.\<close>

lemma own_error_catch_rethrow:
  "own_error_only rw \<Longrightarrow> own_error_only (catch_rethrow operation rw)"
  by (cases rw)
     (auto simp add: own_error_only_def catch_rethrow_def Let_def prim_defs split: sum.splits)

lemma signUp_own_error: "own_error_only (signUp em pw fn rl rm probe su td500 ins w)"
  unfolding signUp_def
  by (rule own_error_catch_rethrow)
     (auto simp add: own_error_only_def signUp_try_def action_defs
        split: settled.splits option.splits)

lemma signIn_own_error: "own_error_only (signIn em pw rm probe si w)"
  unfolding signIn_def
  by (rule own_error_catch_rethrow)
     (auto simp add: own_error_only_def signIn_try_def action_defs
        split: settled.splits option.splits)

lemma signOut_own_error: "own_error_only (signOut so w)"
  unfolding signOut_def
  by (rule own_error_catch_rethrow)
     (auto simp add: own_error_only_def signOut_try_def action_defs
        split: settled.splits option.splits)

lemma updatePassword_own_error: "own_error_only (updatePassword pw up w)"
  unfolding updatePassword_def
  by (rule own_error_catch_rethrow)
     (auto simp add: own_error_only_def updatePassword_try_def action_defs
        split: settled.splits option.splits)

lemma resetPassword_own_error:
  "own_error_only (resetPassword em origin probe rp w)
   \<and> resetPasswordError (auth (snd (resetPassword em origin probe rp w))) =
       (case fst (resetPassword em origin probe rp w) of
          Inr u \<Rightarrow> None
        | Inl err \<Rightarrow> message err)"
  by (auto simp add: own_error_only_def resetPassword_def resetPassword_try_def action_defs
        classified_def split: settled.splits option.splits sum.splits)

text \<open>
  C10. For each of the five actions, four facts. The first events of the action are
  state writes, before the probe and before any backend call: \<open>signUp\<close>, \<open>signIn\<close>,
  \<open>signOut\<close> and \<open>updatePassword\<close> write \<open>loading = true\<close> and then \<open>lastError = null\<close>;
  \<open>resetPassword\<close> writes \<open>isResettingPassword = true\<close>, \<open>resetPasswordError = null\<close>
  and then \<open>lastError = null\<close>. The state follows the trace: the state the action
  ends in is the state it started in with the new events of the trace applied in
  order, so after the entry writes \<open>lastError\<close> is null in the state and changes only
  where a later write of the same action is in the trace. Nothing depends on the error
  of a previous operation: started with any other value in \<open>lastError\<close> (for
  \<open>resetPassword\<close>, also in \<open>resetPasswordError\<close>), the action gives the same result,
  the same state and the same trace. And when the action settles, \<open>lastError\<close> is null
  or the error this very action throws; \<open>resetPasswordError\<close> is null when
  \<open>resetPassword\<close> returns and the message of the thrown error when it throws.
\<close>

theorem actions_clear_lastError_at_entry:
  "prefix (trace w @ [Write (SetLoading True), Write (SetLastError None)])
          (trace (snd (signUp em pw fn rl rm probe su td500 ins w)))
   \<and> prefix (trace w @ [Write (SetLoading True), Write (SetLastError None)])
          (trace (snd (signIn em pw rm probe si w)))
   \<and> prefix (trace w @ [Write (SetLoading True), Write (SetLastError None)])
          (trace (snd (signOut so w)))
   \<and> prefix (trace w @ [Write (SetLoading True), Write (SetLastError None)])
          (trace (snd (updatePassword pw up w)))
   \<and> prefix (trace w @ [Write (SetIsResettingPassword True), Write (SetResetPasswordError None),
                       Write (SetLastError None)])
          (trace (snd (resetPassword em origin probe rp w)))
   \<and> auth (snd (signUp em pw fn rl rm probe su td500 ins w)) =
       replay (drop (length (trace w)) (trace (snd (signUp em pw fn rl rm probe su td500 ins w))))
         (auth w)
   \<and> auth (snd (signIn em pw rm probe si w)) =
       replay (drop (length (trace w)) (trace (snd (signIn em pw rm probe si w)))) (auth w)
   \<and> auth (snd (signOut so w)) =
       replay (drop (length (trace w)) (trace (snd (signOut so w)))) (auth w)
   \<and> auth (snd (updatePassword pw up w)) =
       replay (drop (length (trace w)) (trace (snd (updatePassword pw up w)))) (auth w)
   \<and> auth (snd (resetPassword em origin probe rp w)) =
       replay (drop (length (trace w)) (trace (snd (resetPassword em origin probe rp w))))
         (auth w)
   \<and> signUp em pw fn rl rm probe su td500 ins (w\<lparr>auth := (auth w)\<lparr>lastError := stale\<rparr>\<rparr>) =
       signUp em pw fn rl rm probe su td500 ins w
   \<and> signIn em pw rm probe si (w\<lparr>auth := (auth w)\<lparr>lastError := stale\<rparr>\<rparr>) =
       signIn em pw rm probe si w
   \<and> signOut so (w\<lparr>auth := (auth w)\<lparr>lastError := stale\<rparr>\<rparr>) = signOut so w
   \<and> updatePassword pw up (w\<lparr>auth := (auth w)\<lparr>lastError := stale\<rparr>\<rparr>) =
       updatePassword pw up w
   \<and> resetPassword em origin probe rp
         (w\<lparr>auth := (auth w)\<lparr>lastError := stale, resetPasswordError := stale'\<rparr>\<rparr>) =
       resetPassword em origin probe rp w
   \<and> (lastError (auth (snd (signUp em pw fn rl rm probe su td500 ins w))) = None
        \<or> (\<exists>err. fst (signUp em pw fn rl rm probe su td500 ins w) = Inl err
              \<and> lastError (auth (snd (signUp em pw fn rl rm probe su td500 ins w))) = Some err))
   \<and> (lastError (auth (snd (signIn em pw rm probe si w))) = None
        \<or> (\<exists>err. fst (signIn em pw rm probe si w) = Inl err
              \<and> lastError (auth (snd (signIn em pw rm probe si w))) = Some err))
   \<and> (lastError (auth (snd (signOut so w))) = None
        \<or> (\<exists>err. fst (signOut so w) = Inl err
              \<and> lastError (auth (snd (signOut so w))) = Some err))
   \<and> (lastError (auth (snd (updatePassword pw up w))) = None
        \<or> (\<exists>err. fst (updatePassword pw up w) = Inl err
              \<and> lastError (auth (snd (updatePassword pw up w))) = Some err))
   \<and> (lastError (auth (snd (resetPassword em origin probe rp w))) = None
        \<or> (\<exists>err. fst (resetPassword em origin probe rp w) = Inl err
              \<and> lastError (auth (snd (resetPassword em origin probe rp w))) = Some err))
   \<and> resetPasswordError (auth (snd (resetPassword em origin probe rp w))) =
       (case fst (resetPassword em origin probe rp w) of
          Inr u \<Rightarrow> None
        | Inl err \<Rightarrow> message err)"
  by (intro conjI signUp_entry signIn_entry signOut_entry updatePassword_entry
        resetPassword_entry logged_drop [OF signUp_logged] logged_drop [OF signIn_logged]
        logged_drop [OF signOut_logged] logged_drop [OF updatePassword_logged]
        logged_drop [OF resetPassword_logged] signUp_forgets signIn_forgets signOut_forgets
        updatePassword_forgets resetPassword_forgets
        signUp_own_error [unfolded own_error_only_def]
        signIn_own_error [unfolded own_error_only_def]
        signOut_own_error [unfolded own_error_only_def]
        updatePassword_own_error [unfolded own_error_only_def]
        resetPassword_own_error [THEN conjunct1, unfolded own_error_only_def]
        resetPassword_own_error [THEN conjunct2])

text \<open>
  A stale error is in \<open>lastError\<close> when \<open>signOut\<close> starts; the sign-out call comes third
  in the trace, after the write that clears it, and the state ends without the error.
  When the backend refuses the sign-out instead, \<open>lastError\<close> ends as the error thrown.
\<close>

theorem actions_clear_lastError_at_entry_witness:
  "take 3 (trace (snd (signOut (False, Resolved None)
      (fresh_world\<lparr>auth := initial_state\<lparr>lastError := Some (new_Error ''stale'')\<rparr>\<rparr>)))) =
     [Write (SetLoading True), Write (SetLastError None), Call AuthSignOut]
   \<and> lastError (auth (snd (signOut (False, Resolved None)
      (fresh_world\<lparr>auth := initial_state\<lparr>lastError := Some (new_Error ''stale'')\<rparr>\<rparr>)))) = None
   \<and> signOut (False, Resolved None)
        (fresh_world\<lparr>auth := initial_state\<lparr>lastError := Some (new_Error ''stale'')\<rparr>\<rparr>) =
      signOut (False, Resolved None) fresh_world
   \<and> lastError (auth (snd (signOut (False, Resolved (Some (new_Error ''Session expired'')))
      (fresh_world\<lparr>auth := initial_state\<lparr>lastError := Some (new_Error ''stale'')\<rparr>\<rparr>)))) =
     Some (new_Error ''Session expired'')"
  using actions_clear_lastError_at_entry [where
      w = "fresh_world\<lparr>auth := initial_state\<lparr>lastError := Some (new_Error ''stale'')\<rparr>\<rparr>"
      and so = "(False, Resolved None)" and stale = None]
  by (simp add: signOut_def signOut_try_def catch_rethrow_def action_defs fresh_world_def
        initial_state_def handleError_eq handleError_events_def classified_def classify_kind_def
        classification_rules_def msg_includes_def marks_disconnected_def)

end
